theory Spec2Isabelle
  imports Complex_Main "HOL-Library.Word"
begin

unbundle bit_operations_syntax

section \<open>Data types (data\_types.py)\<close>

text \<open>
  Python integers are \<open>int\<close>, a byte of a \<open>bytes\<close> object is an \<open>8 word\<close>. Floats are
  modelled in two ways. The decoders, the safety checks and the clock multiply, subtract
  and compare finite values: there a float is a real number and the arithmetic is exact
  (\<open>math.degrees\<close> multiplies by \<open>180 / pi\<close>). The encoders pass float products to \<open>int()\<close>,
  which truncates the rounded double and raises on NaN and on an infinity: there a float
  is a \<open>pyfloat\<close>, and the rounding of an exact result to a double is the parameter \<open>rnd\<close>
  of the model.
\<close>

type_synonym byte = "8 word"

datatype py_error = ValueError | IndexError | StructError | OverflowError

datatype FeedbackType = TYPE_1 | TYPE_2 | TYPE_3 | TYPE_4 | TYPE_5

datatype ErrorCode =
    NO_ERROR | OVER_VOLTAGE | UNDER_VOLTAGE | OVER_CURRENT | OVER_TEMPERATURE
  | ENCODER_ERROR | HALL_ERROR | UNKNOWN_ERROR

record MotorStatus =
  motor_id :: int
  position :: real
  velocity :: real
  current :: real
  torque :: real
  temperature :: real
  error_code :: ErrorCode
  voltage :: real
  feedback_type :: "FeedbackType option"

text \<open>The dataclass defaults of \<open>MotorStatus\<close>: every field but \<open>motor_id\<close>.\<close>

definition MotorStatus_init :: "int \<Rightarrow> MotorStatus" where
  "MotorStatus_init mid =
     \<lparr>motor_id = mid, position = 0, velocity = 0, current = 0, torque = 0,
      temperature = 0, error_code = NO_ERROR, voltage = 0, feedback_type = None\<rparr>"

definition has_error :: "MotorStatus \<Rightarrow> bool" where
  "has_error st = (error_code st \<noteq> NO_ERROR)"

record CANFrame =
  arbitration_id :: int
  data :: "byte list"
  is_extended :: bool

text \<open>The constructor with its \<open>__post_init__\<close>: more than 8 bytes raise ValueError.\<close>

definition CANFrame_init :: "int \<Rightarrow> byte list \<Rightarrow> bool \<Rightarrow> py_error + CANFrame" where
  "CANFrame_init aid d ext =
     (if length d > 8 then Inl ValueError
      else Inr \<lparr>arbitration_id = aid, data = d, is_extended = ext\<rparr>)"

text \<open>Class \<open>ProtocolConstants\<close>.\<close>

definition HEARTBEAT_TIMEOUT_MS :: real where "HEARTBEAT_TIMEOUT_MS = 500"
definition COMMAND_INTERVAL_MS :: real where "COMMAND_INTERVAL_MS = 500"
definition POSITION_SCALE :: real where "POSITION_SCALE = 6.28318 / 65536"
definition VELOCITY_SCALE :: real where "VELOCITY_SCALE = 0.1"
definition CURRENT_SCALE :: real where "CURRENT_SCALE = 0.01"
definition TORQUE_SCALE :: real where "TORQUE_SCALE = 0.01"
definition TEMPERATURE_SCALE :: real where "TEMPERATURE_SCALE = 0.1"
definition KP_MAX :: int where "KP_MAX = 4095"
definition KD_MAX :: int where "KD_MAX = 511"

section \<open>Python primitives used by the protocol layer\<close>

text \<open>A float of the encoders: a finite value (given exactly), an infinity or NaN.\<close>

datatype pyfloat = Finite real | PosInf | NegInf | NaN

definition is_finite :: "pyfloat \<Rightarrow> bool" where
  "is_finite x = (case x of Finite r \<Rightarrow> True | PosInf \<Rightarrow> False | NegInf \<Rightarrow> False | NaN \<Rightarrow> False)"

text \<open>\<open>int(x)\<close> on a float truncates towards zero; it raises OverflowError on an infinity
  and ValueError on NaN.\<close>

definition py_int :: "pyfloat \<Rightarrow> py_error + int" where
  "py_int x =
     (case x of
        Finite r \<Rightarrow> Inr (if 0 \<le> r then \<lfloor>r\<rfloor> else \<lceil>r\<rceil>)
      | PosInf \<Rightarrow> Inl OverflowError
      | NegInf \<Rightarrow> Inl OverflowError
      | NaN \<Rightarrow> Inl ValueError)"

text \<open>
  \<open>x + c\<close>, \<open>x / c\<close> and \<open>x * c\<close> for a float \<open>x\<close> and a finite constant \<open>c\<close>, positive for
  \<open>/\<close> and \<open>*\<close>: on a finite \<open>x\<close> the exact result, rounded by \<open>rnd\<close> (to the nearest double,
  or to an infinity when it overflows); an infinity and NaN stay what they are.
\<close>

definition fadd_c :: "(real \<Rightarrow> pyfloat) \<Rightarrow> pyfloat \<Rightarrow> real \<Rightarrow> pyfloat" where
  "fadd_c rnd x c =
     (case x of Finite r \<Rightarrow> rnd (r + c) | PosInf \<Rightarrow> PosInf | NegInf \<Rightarrow> NegInf | NaN \<Rightarrow> NaN)"

definition fdiv_c :: "(real \<Rightarrow> pyfloat) \<Rightarrow> pyfloat \<Rightarrow> real \<Rightarrow> pyfloat" where
  "fdiv_c rnd x c =
     (case x of Finite r \<Rightarrow> rnd (r / c) | PosInf \<Rightarrow> PosInf | NegInf \<Rightarrow> NegInf | NaN \<Rightarrow> NaN)"

definition fmul_c :: "(real \<Rightarrow> pyfloat) \<Rightarrow> pyfloat \<Rightarrow> real \<Rightarrow> pyfloat" where
  "fmul_c rnd x c =
     (case x of Finite r \<Rightarrow> rnd (r * c) | PosInf \<Rightarrow> PosInf | NegInf \<Rightarrow> NegInf | NaN \<Rightarrow> NaN)"

text \<open>
  The doubles \<open>math.pi\<close>, \<open>math.pi / 180\<close> (by which \<open>math.radians\<close> multiplies) and the
  literal \<open>3.14159\<close>, by their exact values.
\<close>

definition math_pi :: real where
  "math_pi = 884279719003555 / 281474976710656"

definition deg_to_rad :: real where
  "deg_to_rad = 5030569068109113 / 288230376151711744"

definition lit_3_14159 :: real where
  "lit_3_14159 = 3537115888337719 / 1125899906842624"

definition radians :: "(real \<Rightarrow> pyfloat) \<Rightarrow> pyfloat \<Rightarrow> pyfloat" where
  "radians rnd x = fmul_c rnd x deg_to_rad"

text \<open>\<open>math.degrees\<close> in the decoders.\<close>

definition degrees :: "real \<Rightarrow> real" where
  "degrees x = x * (180 / pi)"

text \<open>\<open>xs[i]\<close> for a non-negative index: IndexError out of range.\<close>

definition py_index :: "byte list \<Rightarrow> nat \<Rightarrow> py_error + byte" where
  "py_index xs i = (if i < length xs then Inr (xs ! i) else Inl IndexError)"

text \<open>\<open>xs[i:j]\<close> for \<open>0 \<le> i \<le> j\<close>: a slice never raises, it is cut at the end.\<close>

definition py_slice :: "byte list \<Rightarrow> nat \<Rightarrow> nat \<Rightarrow> byte list" where
  "py_slice xs i j = take (j - i) (drop i xs)"

text \<open>Sequencing of computations that may raise.\<close>

definition py_bind :: "py_error + 'a \<Rightarrow> ('a \<Rightarrow> py_error + 'b) \<Rightarrow> py_error + 'b" where
  "py_bind m f = (case m of Inl e \<Rightarrow> Inl e | Inr x \<Rightarrow> f x)"

text \<open>\<open>struct.unpack('>h', bs)[0]\<close>: exactly two bytes, read as a signed big-endian
  16-bit integer; any other length raises \<open>struct.error\<close>.\<close>

definition be16 :: "byte \<Rightarrow> byte \<Rightarrow> 16 word" where
  "be16 hi lo = push_bit 8 (ucast hi) OR ucast lo"

definition unpack_h :: "byte list \<Rightarrow> py_error + int" where
  "unpack_h bs = (case bs of [hi, lo] \<Rightarrow> Inr (sint (be16 hi lo)) | _ \<Rightarrow> Inl StructError)"

text \<open>
  \<open>struct.pack('>f', x)\<close> and \<open>struct.unpack('>f', bs)\<close> belong to Python's library and
  round to IEEE-754 single precision. The rounding is not modelled: the map between a
  float and its 32-bit pattern is a parameter (\<open>pk\<close>, which is \<open>None\<close> where the library
  raises OverflowError, and \<open>unpk\<close>); the big-endian byte order is modelled here.
  \<open>struct.pack\<close> accepts NaN and the infinities.
\<close>

definition be32_bytes :: "32 word \<Rightarrow> byte list" where
  "be32_bytes w = [ucast (drop_bit 24 w), ucast (drop_bit 16 w), ucast (drop_bit 8 w), ucast w]"

definition be32 :: "byte \<Rightarrow> byte \<Rightarrow> byte \<Rightarrow> byte \<Rightarrow> 32 word" where
  "be32 a b c d =
     push_bit 24 (ucast a) OR push_bit 16 (ucast b) OR push_bit 8 (ucast c) OR ucast d"

definition float_to_bytes :: "(pyfloat \<Rightarrow> 32 word option) \<Rightarrow> pyfloat \<Rightarrow> py_error + byte list" where
  "float_to_bytes pk v = (case pk v of None \<Rightarrow> Inl OverflowError | Some w \<Rightarrow> Inr (be32_bytes w))"

definition bytes_to_float :: "(32 word \<Rightarrow> real) \<Rightarrow> byte list \<Rightarrow> py_error + real" where
  "bytes_to_float unpk bs =
     (case bs of [a, b, c, d] \<Rightarrow> Inr (unpk (be32 a b c d)) | _ \<Rightarrow> Inl StructError)"

text \<open>
  The value of a finite IEEE-754 single-precision pattern: sign bit, 8 exponent bits,
  23 fraction bits. It is what \<open>struct.unpack('>f', bs)\<close> returns on the patterns whose
  exponent field is below 255, and it is the instance of \<open>unpk\<close> in the concrete runs.
\<close>

definition unpack_f32 :: "32 word \<Rightarrow> real" where
  "unpack_f32 w =
     (let e = unat (drop_bit 23 w AND 0xFF);
          m = unat (w AND 0x7FFFFF);
          mag = (if e = 0 then real m * 2 powi (- 149)
                 else (1 + real m / 2 ^ 23) * 2 powi (int e - 127))
      in if bit w 31 then - mag else mag)"

section \<open>Decoder (protocol\_layer.py, class ProtocolDecoder)\<close>

definition decode_type1_feedback :: "CANFrame \<Rightarrow> py_error + MotorStatus" where
  "decode_type1_feedback frame =
     (let d = data frame in
      py_bind (py_index d 1) (\<lambda>d1.
      py_bind (py_index d 2) (\<lambda>d2.
      let pos_raw = push_bit 8 (uint d1) OR uint d2;
          position_rad = real_of_int pos_raw * POSITION_SCALE;
          position_deg = degrees position_rad in
      py_bind (unpack_h (py_slice d 3 5)) (\<lambda>vel_raw.
      let velocity_rpm = real_of_int vel_raw * VELOCITY_SCALE in
      py_bind (unpack_h (py_slice d 5 7)) (\<lambda>tor_raw.
      let torque_nm = real_of_int tor_raw * TORQUE_SCALE in
      py_bind (py_index d 7) (\<lambda>d7.
      let temp = real_of_int (uint d7) * TEMPERATURE_SCALE in
      Inr ((MotorStatus_init (arbitration_id frame))
             \<lparr>position := position_deg, velocity := velocity_rpm, torque := torque_nm,
              temperature := temp, feedback_type := Some TYPE_1\<rparr>)))))))"

definition decode_type2_feedback :: "CANFrame \<Rightarrow> py_error + MotorStatus" where
  "decode_type2_feedback frame =
     (let d = data frame in
      py_bind (py_index d 1) (\<lambda>d1.
      py_bind (py_index d 2) (\<lambda>d2.
      let pos_raw = push_bit 8 (uint d1) OR uint d2;
          position_rad = real_of_int pos_raw * POSITION_SCALE;
          position_deg = degrees position_rad in
      py_bind (unpack_h (py_slice d 3 5)) (\<lambda>vel_raw.
      let velocity_rpm = real_of_int vel_raw * VELOCITY_SCALE in
      py_bind (unpack_h (py_slice d 5 7)) (\<lambda>cur_raw.
      let current_a = real_of_int cur_raw * CURRENT_SCALE in
      py_bind (py_index d 7) (\<lambda>d7.
      let temp = real_of_int (uint d7) * TEMPERATURE_SCALE in
      Inr ((MotorStatus_init (arbitration_id frame))
             \<lparr>position := position_deg, velocity := velocity_rpm, current := current_a,
              temperature := temp, feedback_type := Some TYPE_2\<rparr>)))))))"

definition decode_type3_feedback :: "(32 word \<Rightarrow> real) \<Rightarrow> CANFrame \<Rightarrow> py_error + MotorStatus" where
  "decode_type3_feedback unpk frame =
     (let d = data frame in
      py_bind (bytes_to_float unpk (py_slice d 1 5)) (\<lambda>position_rad.
      let position_deg = degrees position_rad in
      py_bind (if length d \<ge> 9 then bytes_to_float unpk (py_slice d 5 9) else Inr 0)
        (\<lambda>velocity_rpm.
      Inr ((MotorStatus_init (arbitration_id frame))
             \<lparr>position := position_deg, velocity := velocity_rpm,
              feedback_type := Some TYPE_3\<rparr>))))"

definition decode_type4_feedback :: "CANFrame \<Rightarrow> py_error + MotorStatus" where
  "decode_type4_feedback frame =
     (let d = data frame in
      py_bind (py_index d 1) (\<lambda>d1.
      let temp = real_of_int (uint d1) * TEMPERATURE_SCALE in
      py_bind (py_index d 2) (\<lambda>d2.
      py_bind (py_index d 3) (\<lambda>d3.
      let voltage_raw = push_bit 8 (uint d2) OR uint d3;
          volt = real_of_int voltage_raw * 0.1 in
      Inr ((MotorStatus_init (arbitration_id frame))
             \<lparr>temperature := temp, voltage := volt, feedback_type := Some TYPE_4\<rparr>)))))"

text \<open>The \<open>if\<close>/\<open>elif\<close> chain of the error byte, in the source's order.\<close>

definition error_code_of_raw :: "int \<Rightarrow> ErrorCode" where
  "error_code_of_raw error_code_raw =
     (if error_code_raw AND 0x01 \<noteq> 0 then OVER_VOLTAGE
      else if error_code_raw AND 0x02 \<noteq> 0 then UNDER_VOLTAGE
      else if error_code_raw AND 0x04 \<noteq> 0 then OVER_CURRENT
      else if error_code_raw AND 0x08 \<noteq> 0 then OVER_TEMPERATURE
      else if error_code_raw AND 0x10 \<noteq> 0 then ENCODER_ERROR
      else if error_code_raw AND 0x20 \<noteq> 0 then HALL_ERROR
      else if error_code_raw \<noteq> 0 then UNKNOWN_ERROR
      else NO_ERROR)"

definition decode_type5_feedback :: "CANFrame \<Rightarrow> py_error + MotorStatus" where
  "decode_type5_feedback frame =
     (let d = data frame in
      py_bind (py_index d 1) (\<lambda>d1.
      let error_code_raw = uint d1 in
      Inr ((MotorStatus_init (arbitration_id frame))
             \<lparr>error_code := error_code_of_raw error_code_raw,
              feedback_type := Some TYPE_5\<rparr>)))"

text \<open>
  \<open>decode_feedback\<close>: the length test, then the dispatch on the top three bits of byte 0
  inside \<open>try\<close>/\<open>except Exception\<close>, which turns every exception into \<open>None\<close>.
\<close>

definition feedback_dispatch :: "(32 word \<Rightarrow> real) \<Rightarrow> CANFrame \<Rightarrow> py_error + MotorStatus option" where
  "feedback_dispatch unpk frame =
     py_bind (py_index (data frame) 0) (\<lambda>d0.
     let feedback_type_code = drop_bit 5 (uint d0) AND 0x07 in
     if feedback_type_code = 1 then map_sum id Some (decode_type1_feedback frame)
     else if feedback_type_code = 2 then map_sum id Some (decode_type2_feedback frame)
     else if feedback_type_code = 3 then map_sum id Some (decode_type3_feedback unpk frame)
     else if feedback_type_code = 4 then map_sum id Some (decode_type4_feedback frame)
     else if feedback_type_code = 5 then map_sum id Some (decode_type5_feedback frame)
     else Inr None)"

definition decode_feedback :: "(32 word \<Rightarrow> real) \<Rightarrow> CANFrame \<Rightarrow> MotorStatus option" where
  "decode_feedback unpk frame =
     (if length (data frame) < 8 then None
      else case feedback_dispatch unpk frame of Inl e \<Rightarrow> None | Inr r \<Rightarrow> r)"

text \<open>\<open>decode_id_query_response\<close>: the loop appends the bytes in 1..32 in payload order;
  the result is the tuple of them, or \<open>None\<close> when the list is empty.\<close>

definition decode_id_query_response :: "CANFrame \<Rightarrow> int list option" where
  "decode_id_query_response frame =
     (if arbitration_id frame \<noteq> 0x000 then None
      else let motor_ids = filter (\<lambda>byte_val. 1 \<le> byte_val \<and> byte_val \<le> 32)
                                  (map uint (data frame))
           in if motor_ids \<noteq> [] then Some motor_ids else None)"

text \<open>The kind bits of a frame: the dispatch key of \<open>decode_feedback\<close>.\<close>

definition kind_bits :: "CANFrame \<Rightarrow> int" where
  "kind_bits frame = drop_bit 5 (uint (data frame ! 0)) AND 0x07"

section \<open>Encoder (protocol\_layer.py, class ProtocolEncoder)\<close>

text \<open>\<open>bytes(xs)\<close> on a list of integers: ValueError unless every one is in 0..255.\<close>

definition py_bytes :: "int list \<Rightarrow> py_error + byte list" where
  "py_bytes xs =
     (if list_all (\<lambda>x. 0 \<le> x \<and> x < 256) xs then Inr (map word_of_int xs)
      else Inl ValueError)"

text \<open>\<open>n.to_bytes(2, 'big')\<close>: OverflowError unless \<open>n\<close> is in 0..65535.\<close>

definition to_bytes_2_big :: "int \<Rightarrow> py_error + byte list" where
  "to_bytes_2_big n =
     (if 0 \<le> n \<and> n < 65536 then Inr [word_of_int (drop_bit 8 n), word_of_int n]
      else Inl OverflowError)"

definition encode_query_id :: "py_error + CANFrame" where
  "encode_query_id =
     CANFrame_init 0x000 [0x55, 0xAA, 0x00, 0x00, 0x00, 0x00, 0x00, 0x00] False"

definition encode_set_zero_point :: "int \<Rightarrow> py_error + CANFrame" where
  "encode_set_zero_point mid =
     CANFrame_init mid [0x55, 0xAA, 0x00, 0x00, 0x00, 0x00, 0x00, 0x00] False"

text \<open>
  The local variables of \<open>encode_force_position_command\<close>, in the source's order. Each
  \<open>int()\<close> may raise. \<open>2 * math.pi\<close> is exact in binary floating point (a doubling).
\<close>

definition kp_int :: "pyfloat \<Rightarrow> py_error + int" where
  "kp_int kp = py_bind (py_int kp) (\<lambda>i. Inr (max 0 (min i KP_MAX)))"

definition kd_int :: "pyfloat \<Rightarrow> py_error + int" where
  "kd_int kd = py_bind (py_int kd) (\<lambda>i. Inr (max 0 (min i KD_MAX)))"

definition pos_normalized :: "(real \<Rightarrow> pyfloat) \<Rightarrow> pyfloat \<Rightarrow> pyfloat" where
  "pos_normalized rnd pos = fdiv_c rnd (fadd_c rnd pos math_pi) (2 * math_pi)"

definition pos_int :: "(real \<Rightarrow> pyfloat) \<Rightarrow> pyfloat \<Rightarrow> py_error + int" where
  "pos_int rnd pos =
     py_bind (py_int (fmul_c rnd (pos_normalized rnd pos) 65535))
       (\<lambda>i. Inr (max 0 (min i 65535)))"

definition vel_normalized :: "(real \<Rightarrow> pyfloat) \<Rightarrow> pyfloat \<Rightarrow> pyfloat" where
  "vel_normalized rnd vel = fdiv_c rnd (fadd_c rnd vel 10) 20"

definition vel_int :: "(real \<Rightarrow> pyfloat) \<Rightarrow> pyfloat \<Rightarrow> py_error + int" where
  "vel_int rnd vel =
     py_bind (py_int (fmul_c rnd (vel_normalized rnd vel) 2047))
       (\<lambda>i. Inr (max 0 (min i 2047)))"

definition tor_normalized :: "(real \<Rightarrow> pyfloat) \<Rightarrow> pyfloat \<Rightarrow> pyfloat" where
  "tor_normalized rnd tor = fdiv_c rnd (fadd_c rnd tor 10) 20"

definition tor_int :: "(real \<Rightarrow> pyfloat) \<Rightarrow> pyfloat \<Rightarrow> py_error + int" where
  "tor_int rnd tor =
     py_bind (py_int (fmul_c rnd (tor_normalized rnd tor) 2047))
       (\<lambda>i. Inr (max 0 (min i 2047)))"

definition command_data :: "int \<Rightarrow> int \<Rightarrow> int \<Rightarrow> int \<Rightarrow> int \<Rightarrow> int" where
  "command_data kp_i kd_i pos_i vel_i tor_i =
     0 OR push_bit 52 (kp_i AND 0xFFF)
       OR push_bit 43 (kd_i AND 0x1FF)
       OR push_bit 27 (pos_i AND 0xFFFF)
       OR push_bit 16 (vel_i AND 0x7FF)
       OR push_bit 5 (tor_i AND 0x7FF)"

definition encode_force_position_command ::
  "(real \<Rightarrow> pyfloat) \<Rightarrow> int \<Rightarrow> pyfloat \<Rightarrow> pyfloat \<Rightarrow> pyfloat \<Rightarrow> pyfloat \<Rightarrow> pyfloat
     \<Rightarrow> py_error + CANFrame" where
  "encode_force_position_command rnd mid kp kd pos vel tor =
     py_bind (kp_int kp) (\<lambda>kp_i.
     py_bind (kd_int kd) (\<lambda>kd_i.
     py_bind (pos_int rnd pos) (\<lambda>pos_i.
     py_bind (vel_int rnd vel) (\<lambda>vel_i.
     py_bind (tor_int rnd tor) (\<lambda>tor_i.
     let cd = command_data kp_i kd_i pos_i vel_i tor_i;
         bs = map (\<lambda>i. drop_bit (56 - 8 * i) cd AND 0xFF) [0..<8]
     in py_bind (py_bytes bs) (\<lambda>d. CANFrame_init mid d False))))))"

text \<open>The three \<open>float_to_bytes\<close> calls come first, and each may raise; only the position
  bytes are used. The two limits are multiplied, truncated by \<open>int\<close>, then clamped.\<close>

definition encode_servo_position_command ::
  "(pyfloat \<Rightarrow> 32 word option) \<Rightarrow> (real \<Rightarrow> pyfloat) \<Rightarrow> int \<Rightarrow> pyfloat \<Rightarrow> pyfloat \<Rightarrow> pyfloat
     \<Rightarrow> py_error + CANFrame" where
  "encode_servo_position_command pk rnd mid pos speed_limit current_limit =
     py_bind (float_to_bytes pk (radians rnd pos)) (\<lambda>pos_bytes.
     py_bind (float_to_bytes pk speed_limit) (\<lambda>speed_bytes.
     py_bind (float_to_bytes pk current_limit) (\<lambda>current_bytes.
     py_bind (py_int (fmul_c rnd speed_limit 10)) (\<lambda>speed_i.
     let speed_int = max 0 (min speed_i 65535) in
     py_bind (py_int (fmul_c rnd current_limit 100)) (\<lambda>current_i.
     let current_int = max 0 (min current_i 65535) in
     py_bind (to_bytes_2_big speed_int) (\<lambda>b45.
     py_bind (to_bytes_2_big current_int) (\<lambda>b67.
     CANFrame_init mid (pos_bytes @ b45 @ b67) False)))))))"

definition encode_servo_speed_command ::
  "(pyfloat \<Rightarrow> 32 word option) \<Rightarrow> int \<Rightarrow> pyfloat \<Rightarrow> pyfloat \<Rightarrow> py_error + CANFrame" where
  "encode_servo_speed_command pk mid speed current_limit =
     py_bind (float_to_bytes pk speed) (\<lambda>speed_bytes.
     py_bind (float_to_bytes pk current_limit) (\<lambda>current_bytes.
     CANFrame_init mid (speed_bytes @ current_bytes) False))"

text \<open>
  A sample of \<open>struct.pack('>f', x)\<close>, for the concrete runs below: the patterns of the
  infinities and of NaN, the OverflowError on finite magnitudes from \<open>2 ^ 128\<close> on, and the
  single-precision patterns of 0, 3/32, 3, 5, 50, 100, -1000 and of \<open>math.radians(45.0)\<close>,
  which is the double \<open>math_pi / 4\<close>. On other arguments it does not stand for the library.
\<close>

definition pack_f32_sample :: "pyfloat \<Rightarrow> 32 word option" where
  "pack_f32_sample x =
     (case x of
        PosInf \<Rightarrow> Some 0x7F800000
      | NegInf \<Rightarrow> Some 0xFF800000
      | NaN \<Rightarrow> Some 0x7FC00000
      | Finite r \<Rightarrow>
          if \<bar>r\<bar> \<ge> 2 ^ 128 then None
          else if r = 0 then Some 0x00000000
          else if r = 3 / 32 then Some 0x3DC00000
          else if r = 3 then Some 0x40400000
          else if r = 5 then Some 0x40A00000
          else if r = 50 then Some 0x42480000
          else if r = 100 then Some 0x42C80000
          else if r = - 1000 then Some 0xC47A0000
          else if r = math_pi / 4 then Some 0x3F490FDB
          else None)"

text \<open>
  A sample of the rounding to double, for the concrete runs below: the product
  \<open>45 * deg_to_rad\<close> rounds to the double \<open>math_pi / 4\<close>, a magnitude from \<open>2 ^ 1024\<close> on
  overflows to an infinity, and the other exact results of the runs are doubles and are
  returned as they are. On other arguments it does not stand for the arithmetic.
\<close>

definition rnd_sample :: "real \<Rightarrow> pyfloat" where
  "rnd_sample x =
     (if x = 45 * deg_to_rad then Finite (math_pi / 4)
      else if x \<ge> 2 ^ 1024 then PosInf
      else if x \<le> - (2 ^ 1024) then NegInf
      else Finite x)"

section \<open>Transport (hardware\_layer.py)\<close>

text \<open>
  The transport as the motor layer sees it. \<open>sent\<close> lists the frames handed to the bus;
  \<open>bus_send_ok\<close> says whether the bus object is there and its \<open>send\<close> returns without
  raising; \<open>message_callbacks\<close> holds, for each registered callback, the reference of the
  Motor it belongs to.
\<close>

record CANHardware =
  is_connected :: bool
  bus_send_ok :: bool
  sent :: "CANFrame list"
  message_callbacks :: "nat list"

definition send_frame :: "CANHardware \<Rightarrow> CANFrame \<Rightarrow> bool \<times> CANHardware" where
  "send_frame hw frame =
     (if \<not> is_connected hw \<or> \<not> bus_send_ok hw then (False, hw)
      else (True, hw\<lparr>sent := sent hw @ [frame]\<rparr>))"

definition add_message_callback :: "CANHardware \<Rightarrow> nat \<Rightarrow> CANHardware" where
  "add_message_callback hw r = hw\<lparr>message_callbacks := message_callbacks hw @ [r]\<rparr>"

section \<open>Motor (motor\_api.py, class Motor)\<close>

text \<open>
  The fields of a Motor that the commands read or write (the callback registries and the
  logger are left out). Time is explicit: a command takes \<open>now\<close>, the value that
  \<open>time.time()\<close> returns when the command reads the clock. The arguments of the commands
  are finite floats, given as reals; they reach the encoders as \<open>Finite\<close> values.
\<close>

record Motor =
  motor_id :: int
  last_status :: "MotorStatus option"
  is_enabled :: bool
  last_command_time :: real
  max_position_deg :: real
  max_velocity_rpm :: real
  max_current_a :: real
  max_torque_nm :: real

text \<open>\<open>Motor.__init__\<close>: \<open>r\<close> is the reference of the object under construction.\<close>

definition Motor_init :: "int \<Rightarrow> CANHardware \<Rightarrow> nat \<Rightarrow> py_error + Motor \<times> CANHardware" where
  "Motor_init mid hw r =
     (if \<not> (1 \<le> mid \<and> mid \<le> 32) then Inl ValueError
      else Inr (\<lparr>motor_id = mid, last_status = None, is_enabled = False,
                 last_command_time = 0, max_position_deg = 360, max_velocity_rpm = 1000,
                 max_current_a = 10, max_torque_nm = 5\<rparr>,
                add_message_callback hw r))"

definition check_position_safe :: "Motor \<Rightarrow> real \<Rightarrow> bool" where
  "check_position_safe m position_deg = (if \<bar>position_deg\<bar> > max_position_deg m then False else True)"

definition check_velocity_safe :: "Motor \<Rightarrow> real \<Rightarrow> bool" where
  "check_velocity_safe m velocity_rpm = (if \<bar>velocity_rpm\<bar> > max_velocity_rpm m then False else True)"

definition check_current_safe :: "Motor \<Rightarrow> real \<Rightarrow> bool" where
  "check_current_safe m current_a = (if current_a > max_current_a m then False else True)"

text \<open>The part of a command after the safety checks: the \<open>try\<close> block. An exception of the
  encoder is caught and gives \<open>False\<close>; the clock is read only after a successful send.\<close>

definition send_command ::
  "Motor \<Rightarrow> CANHardware \<Rightarrow> real \<Rightarrow> py_error + CANFrame \<Rightarrow> bool \<times> Motor \<times> CANHardware" where
  "send_command m hw now encoded =
     (case encoded of
        Inl e \<Rightarrow> (False, m, hw)
      | Inr frame \<Rightarrow>
          (case send_frame hw frame of
             (success, hw') \<Rightarrow>
               if success then (True, m\<lparr>last_command_time := now\<rparr>, hw')
               else (False, m, hw')))"

definition set_position ::
  "(pyfloat \<Rightarrow> 32 word option) \<Rightarrow> (real \<Rightarrow> pyfloat) \<Rightarrow> Motor \<Rightarrow> CANHardware \<Rightarrow> real
     \<Rightarrow> real \<Rightarrow> real \<Rightarrow> real \<Rightarrow> string \<Rightarrow> bool \<times> Motor \<times> CANHardware" where
  "set_position pk rnd m hw now position_deg speed_limit_rpm current_limit_a mode =
     (if \<not> check_position_safe m position_deg then (False, m, hw)
      else if \<not> check_velocity_safe m speed_limit_rpm then (False, m, hw)
      else if \<not> check_current_safe m current_limit_a then (False, m, hw)
      else send_command m hw now
        (if mode = ''servo'' then
           encode_servo_position_command pk rnd (motor_id m) (Finite position_deg)
             (Finite speed_limit_rpm) (Finite current_limit_a)
         else if mode = ''force'' then
           encode_force_position_command rnd (motor_id m) (Finite 50) (Finite 5)
             (fdiv_c rnd (fmul_c rnd (Finite position_deg) lit_3_14159) 180)
             (Finite 0) (Finite 0)
         else Inl ValueError))"

definition set_velocity ::
  "(pyfloat \<Rightarrow> 32 word option) \<Rightarrow> Motor \<Rightarrow> CANHardware \<Rightarrow> real \<Rightarrow> real \<Rightarrow> real
     \<Rightarrow> bool \<times> Motor \<times> CANHardware" where
  "set_velocity pk m hw now velocity_rpm current_limit_a =
     (if \<not> check_velocity_safe m velocity_rpm then (False, m, hw)
      else if \<not> check_current_safe m current_limit_a then (False, m, hw)
      else send_command m hw now
        (encode_servo_speed_command pk (motor_id m) (Finite velocity_rpm)
           (Finite current_limit_a)))"

definition stop :: "(pyfloat \<Rightarrow> 32 word option) \<Rightarrow> Motor \<Rightarrow> CANHardware \<Rightarrow> real
     \<Rightarrow> bool \<times> Motor \<times> CANHardware" where
  "stop pk m hw now = set_velocity pk m hw now 0 0"

text \<open>
  \<open>set_zero_point\<close> called when the clock reads \<open>now\<close>: after a successful send it sleeps
  for the command interval and returns \<open>True\<close>; it does not write \<open>last_command_time\<close>.
  The last component is the clock when the call returns.
\<close>

definition set_zero_point ::
  "Motor \<Rightarrow> CANHardware \<Rightarrow> real \<Rightarrow> bool \<times> Motor \<times> CANHardware \<times> real" where
  "set_zero_point m hw now =
     (case encode_set_zero_point (motor_id m) of
        Inl e \<Rightarrow> (False, m, hw, now)
      | Inr frame \<Rightarrow>
          (case send_frame hw frame of
             (success, hw') \<Rightarrow>
               if success then (True, m, hw', now + COMMAND_INTERVAL_MS / 1000)
               else (False, m, hw', now)))"

definition is_heartbeat_alive :: "Motor \<Rightarrow> real \<Rightarrow> bool" where
  "is_heartbeat_alive m now =
     (if last_command_time m = 0 then True
      else let elapsed = now - last_command_time m
           in elapsed < HEARTBEAT_TIMEOUT_MS / 1000)"

section \<open>MotorManager (motor\_api.py)\<close>

text \<open>
  Motors are objects with identity: \<open>objects\<close> is the list of the Motors constructed so
  far, a reference is an index into it, and the dictionary \<open>motors\<close> maps an address to a
  reference.
\<close>

record MotorManager =
  can_hardware :: CANHardware
  objects :: "Motor list"
  motors :: "int \<rightharpoonup> nat"

definition add_motor :: "int \<Rightarrow> MotorManager \<Rightarrow> py_error + nat \<times> MotorManager" where
  "add_motor mid mm =
     (case motors mm mid of
        Some r \<Rightarrow> Inr (r, mm)
      | None \<Rightarrow>
          (let r = length (objects mm) in
           case Motor_init mid (can_hardware mm) r of
             Inl e \<Rightarrow> Inl e
           | Inr (motor, hw') \<Rightarrow>
               Inr (r, mm\<lparr>can_hardware := hw', objects := objects mm @ [motor],
                            motors := (motors mm)(mid \<mapsto> r)\<rparr>)))"

text \<open>
  \<open>scan_motors\<close>: \<open>polls\<close> is the sequence of results of the \<open>receive_frame\<close> calls that
  the loop makes before its timeout (\<open>None\<close> for a poll that timed out). The detected
  addresses are collected in a set and returned sorted.
\<close>

definition collect_ids :: "CANFrame option \<Rightarrow> int set \<Rightarrow> int set" where
  "collect_ids response_frame detected_ids =
     (case response_frame of
        None \<Rightarrow> detected_ids
      | Some f \<Rightarrow>
          (case decode_id_query_response f of
             None \<Rightarrow> detected_ids
           | Some motor_ids \<Rightarrow> detected_ids \<union> set motor_ids))"

definition scan_motors :: "CANHardware \<Rightarrow> CANFrame option list \<Rightarrow> int list \<times> CANHardware" where
  "scan_motors hw polls =
     (case encode_query_id of
        Inl e \<Rightarrow> ([], hw)
      | Inr frame \<Rightarrow>
          (case send_frame hw frame of
             (success, hw') \<Rightarrow>
               if \<not> success then ([], hw')
               else (sorted_list_of_set (fold collect_ids polls {}), hw')))"

section \<open>Verified properties\<close>

subsection \<open>Auxiliary facts\<close>

lemma bit_and_int:
  "(x::int) AND 1 \<noteq> 0 \<longleftrightarrow> bit x 0"
  "(x::int) AND 2 \<noteq> 0 \<longleftrightarrow> bit x 1"
  "(x::int) AND 4 \<noteq> 0 \<longleftrightarrow> bit x 2"
  "(x::int) AND 8 \<noteq> 0 \<longleftrightarrow> bit x 3"
  "(x::int) AND 16 \<noteq> 0 \<longleftrightarrow> bit x 4"
  "(x::int) AND 32 \<noteq> 0 \<longleftrightarrow> bit x 5"
  using and_exp_eq_0_iff_not_bit [of x 0] and_exp_eq_0_iff_not_bit [of x 1]
    and_exp_eq_0_iff_not_bit [of x 2] and_exp_eq_0_iff_not_bit [of x 3]
    and_exp_eq_0_iff_not_bit [of x 4] and_exp_eq_0_iff_not_bit [of x 5]
  by simp_all

lemma error_code_of_raw_bits:
  "error_code_of_raw (uint (b::byte)) =
    (if bit b 0 then OVER_VOLTAGE else if bit b 1 then UNDER_VOLTAGE
     else if bit b 2 then OVER_CURRENT else if bit b 3 then OVER_TEMPERATURE
     else if bit b 4 then ENCODER_ERROR else if bit b 5 then HALL_ERROR
     else if b \<noteq> 0 then UNKNOWN_ERROR else NO_ERROR)"
  unfolding error_code_of_raw_def
  by (simp add: bit_and_int bit_uint_iff uint_0_iff del: bit_0)

lemma length8_cases:
  assumes "length xs = 8"
  obtains a b c d e f g h where "xs = [a, b, c, d, e, f, g, h]"
proof -
  from assms obtain a b c d e f g h where "xs = [a, b, c, d, e, f, g, h]"
    by (auto simp: length_Suc_conv eval_nat_numeral)
  then show ?thesis using that by blast
qed

lemma feedback_dispatch_8:
  assumes "data frame = [a, b, c, d, e, f, g, h]"
  shows "feedback_dispatch unpk frame =
     (if kind_bits frame = 1 then map_sum id Some (decode_type1_feedback frame)
      else if kind_bits frame = 2 then map_sum id Some (decode_type2_feedback frame)
      else if kind_bits frame = 3 then map_sum id Some (decode_type3_feedback unpk frame)
      else if kind_bits frame = 4 then map_sum id Some (decode_type4_feedback frame)
      else if kind_bits frame = 5 then map_sum id Some (decode_type5_feedback frame)
      else Inr None)"
  using assms
  by (simp add: feedback_dispatch_def kind_bits_def py_bind_def py_index_def Let_def)

lemma decode_type5_8:
  assumes "data frame = [a, b, c, d, e, f, g, h]"
  shows "decode_type5_feedback frame =
     Inr ((MotorStatus_init (arbitration_id frame))
            \<lparr>error_code := error_code_of_raw (uint b), feedback_type := Some TYPE_5\<rparr>)"
  using assms by (simp add: decode_type5_feedback_def py_bind_def py_index_def Let_def)

lemma arctan_series_bounds:
  fixes x :: real
  assumes "0 \<le> x" "x \<le> 1"
  shows "(\<Sum>i<2*n. (-1)^i * (1 / real (i * 2 + 1) * x ^ (i * 2 + 1))) \<le> arctan x"
    and "arctan x \<le> (\<Sum>i<2*n+1. (-1)^i * (1 / real (i * 2 + 1) * x ^ (i * 2 + 1)))"
proof -
  let ?a = "\<lambda>n. 1 / real (n * 2 + 1) * x ^ (n * 2 + 1)"
  have ax: "\<bar>x\<bar> \<le> 1" using assms by simp
  have z: "?a \<longlonglongrightarrow> 0" by (rule zeroseq_arctan_series [OF ax])
  have p: "\<And>n. 0 \<le> ?a n" using assms by simp
  have m: "?a (Suc n) \<le> ?a n" for n
  proof -
    have "x ^ (Suc n * 2 + 1) \<le> x ^ (n * 2 + 1)"
      using assms by (intro power_decreasing) auto
    moreover have "1 / real (Suc n * 2 + 1) \<le> 1 / real (n * 2 + 1)"
      by (simp add: field_simps)
    ultimately show ?thesis
      using assms by (intro mult_mono) auto
  qed
  have s: "arctan x = (\<Sum>k. (-1)^k * ?a k)" by (rule arctan_series [OF ax])
  show "(\<Sum>i<2*n. (-1)^i * ?a i) \<le> arctan x"
    unfolding s by (rule summable_Leibniz'(2) [OF z p m])
  show "arctan x \<le> (\<Sum>i<2*n+1. (-1)^i * ?a i)"
    unfolding s by (rule summable_Leibniz'(4) [OF z p m])
qed

lemma pi_gt_314159: "3.14159 < pi"
proof -
  have l: "(\<Sum>i<2*2. (-1)^i * (1 / real (i * 2 + 1) * (1/5) ^ (i * 2 + 1))) \<le> arctan (1/5 :: real)"
    by (rule arctan_series_bounds(1)) simp_all
  have u: "arctan (1/239 :: real) \<le> (\<Sum>i<2*0+1. (-1)^i * (1 / real (i * 2 + 1) * (1/239) ^ (i * 2 + 1)))"
    by (rule arctan_series_bounds(2)) simp_all
  have l': "(1/5 - 1/375 + 1/15625 - 1/546875 :: real) \<le> arctan (1/5)"
    using l by (simp add: numeral_eq_Suc)
  have u': "arctan (1/239 :: real) \<le> 1/239"
    using u by simp
  have "pi = 16 * arctan (1/5) - 4 * arctan (1/239)"
    using machin by simp
  with l' u' show ?thesis by simp
qed

lemma uint_be16: "push_bit 8 (uint (hi::byte)) OR uint (lo::byte) = uint (be16 hi lo)"
  unfolding be16_def
  by (rule bit_eqI) (auto simp: bit_simps bit_uint_iff dest: bit_imp_le_length)

lemma unat_be16: "real_of_int (push_bit 8 (uint (hi::byte)) OR uint (lo::byte)) = real (unat (be16 hi lo))"
  by (simp add: uint_be16)

lemma decode_type1_8:
  assumes "data frame = [a, b, c, d, e, f, g, h]"
  shows "decode_type1_feedback frame =
     Inr ((MotorStatus_init (arbitration_id frame))
            \<lparr>position := degrees (real (unat (be16 b c)) * POSITION_SCALE),
             velocity := real_of_int (sint (be16 d e)) * VELOCITY_SCALE,
             torque := real_of_int (sint (be16 f g)) * TORQUE_SCALE,
             temperature := real (unat h) * TEMPERATURE_SCALE,
             feedback_type := Some TYPE_1\<rparr>)"
  using assms
  by (simp add: decode_type1_feedback_def py_bind_def py_index_def py_slice_def unpack_h_def
      Let_def unat_be16)

lemma to_bytes_2_big_clamped:
  "to_bytes_2_big (max 0 (min n 65535)) =
     Inr [word_of_int (drop_bit 8 (max 0 (min n 65535))), word_of_int (max 0 (min n 65535))]"
  by (simp add: to_bytes_2_big_def)

lemma send_command_True:
  assumes "send_command m hw now encoded = (True, m', hw')"
  shows "m' = m\<lparr>last_command_time := now\<rparr>"
  using assms
  by (auto simp: send_command_def split: sum.splits prod.splits if_splits)

lemma add_motor_again:
  assumes "add_motor mid mm = Inr (r, mm')"
  shows "add_motor mid mm' = Inr (r, mm')"
proof (cases "motors mm mid")
  case (Some r0)
  with assms show ?thesis by (auto simp: add_motor_def)
next
  case None
  with assms have "motors mm' mid = Some r"
    by (auto simp: add_motor_def Let_def split: sum.splits prod.splits)
  then show ?thesis by (simp add: add_motor_def)
qed

lemma finite_fold_collect_ids: "finite acc \<Longrightarrow> finite (fold collect_ids polls acc)"
  by (induction polls arbitrary: acc) (auto simp: collect_ids_def split: option.splits)

lemma scan_motors_cases:
  "fst (scan_motors hw polls) = [] \<or>
   fst (scan_motors hw polls) = sorted_list_of_set (fold collect_ids polls {})"
  by (auto simp: scan_motors_def split: sum.splits prod.splits)

lemma scan_run:
  "fst (scan_motors
     \<lparr>is_connected = True, bus_send_ok = True, sent = [], message_callbacks = []\<rparr>
     [Some \<lparr>arbitration_id = 0, data = [0x03, 0xAA, 0x01, 0x03, 0x20, 0, 0, 0], is_extended = False\<rparr>,
      None,
      Some \<lparr>arbitration_id = 5, data = [0x07, 0, 0, 0, 0, 0, 0, 0], is_extended = False\<rparr>,
      Some \<lparr>arbitration_id = 0, data = [0x02, 0x01, 0, 0, 0, 0, 0, 0], is_extended = False\<rparr>])
   = [1, 2, 3, 32]"
  apply (simp add: scan_motors_def encode_query_id_def CANFrame_init_def send_frame_def
      collect_ids_def decode_id_query_response_def)
  apply code_simp
  done

lemma and_mask_self:
  fixes x :: int
  assumes "0 \<le> x" "x < 2 ^ n"
  shows "x AND (2 ^ n - 1) = x"
proof -
  have "x AND mask n = take_bit n x" by (simp add: take_bit_eq_mask)
  also have "\<dots> = x" using assms by (simp add: take_bit_int_eq_self)
  finally show ?thesis by (simp add: mask_eq_exp_minus_1)
qed

lemma or_push_bit_disjoint:
  fixes x y :: int
  assumes "0 \<le> y" "y < 2 ^ n"
  shows "push_bit n x OR y = x * 2 ^ n + y"
proof -
  have "take_bit n y = y" using assms by (simp add: take_bit_int_eq_self)
  then have "push_bit n x OR y = concat_bit n y x"
    by (simp add: concat_bit_def or.commute)
  also have "\<dots> = take_bit n y + push_bit n x" by (rule concat_bit_eq)
  finally show ?thesis using \<open>take_bit n y = y\<close> by (simp add: push_bit_eq_mult)
qed

lemma upt_0_8: "[0..<8] = [0, 1, 2, 3, 4, 5, 6, 7]"
  by (simp add: upt_rec)

lemma and_255: "(x::int) AND 0xFF = take_bit 8 x"
  by (simp add: take_bit_eq_mask mask_eq_exp_minus_1)

lemma byte_of_and_255: "(word_of_int (take_bit 8 x) :: byte) = word_of_int x"
  by (rule bit_word_eqI) (simp add: bit_simps)

lemma byte_range: "0 \<le> take_bit 8 (x::int) \<and> take_bit 8 x < 256"
  using take_bit_int_less_exp [of 8 x] by simp

lemma field_extract:
  fixes hi x lo :: int
  assumes "0 \<le> x" "x < 2 ^ w" "0 \<le> lo" "lo < 2 ^ n"
  shows "take_bit w (drop_bit n (hi * 2 ^ (n + w) + x * 2 ^ n + lo)) = x"
proof -
  have "hi * 2 ^ (n + w) + x * 2 ^ n + lo = (hi * 2 ^ w + x) * 2 ^ n + lo"
    by (simp add: power_add algebra_simps)
  then have "drop_bit n (hi * 2 ^ (n + w) + x * 2 ^ n + lo) = hi * 2 ^ w + x"
    using assms(3,4) by (simp add: drop_bit_eq_div div_pos_pos_trivial)
  then show ?thesis using assms(1,2) by (simp add: take_bit_eq_mod)
qed

lemma drop_bit_step:
  "drop_bit (k + 8) N * 256 + take_bit 8 (drop_bit k N) = drop_bit k (N::int)"
  using bits_ident [of 8 "drop_bit k N"]
  by (simp add: drop_bit_drop_bit push_bit_eq_mult add.commute)

lemma be_bytes_value:
  fixes N :: int
  assumes "0 \<le> N" "N < 2 ^ 64"
  shows "foldl (\<lambda>a b. a * 256 + uint b) 0
           [word_of_int (drop_bit 56 N), word_of_int (drop_bit 48 N),
            word_of_int (drop_bit 40 N), word_of_int (drop_bit 32 N),
            word_of_int (drop_bit 24 N), word_of_int (drop_bit 16 N),
            word_of_int (drop_bit 8 N), word_of_int N :: byte] = N"
proof -
  have "0 \<le> drop_bit 56 N" "drop_bit 56 N < 2 ^ 8"
    using assms by (simp_all add: drop_bit_eq_div pos_imp_zdiv_nonneg_iff div_less_iff_less_mult flip: zdiv_zmult2_eq)
  then have t: "take_bit 8 (drop_bit 56 N) = drop_bit 56 N"
    by (simp add: take_bit_int_eq_self)
  note s = drop_bit_step [of 48 N, simplified] drop_bit_step [of 40 N, simplified]
    drop_bit_step [of 32 N, simplified] drop_bit_step [of 24 N, simplified]
    drop_bit_step [of 16 N, simplified] drop_bit_step [of 8 N, simplified]
    drop_bit_step [of 0 N, simplified]
  show ?thesis
    by (simp add: uint_word_of_int_eq t s)
qed

lemma force_position_fields:
  fixes K D P V T :: int
  assumes "0 \<le> K" "K < 4096" "0 \<le> D" "D < 512" "0 \<le> P" "P < 65536"
    "0 \<le> V" "V < 2048" "0 \<le> T" "T < 2048"
  defines "N \<equiv> K * 2 ^ 52 + D * 2 ^ 43 + P * 2 ^ 27 + V * 2 ^ 16 + T * 2 ^ 5"
  shows "take_bit 12 (drop_bit 52 N) = K" "take_bit 9 (drop_bit 43 N) = D"
    "take_bit 16 (drop_bit 27 N) = P" "take_bit 11 (drop_bit 16 N) = V"
    "take_bit 11 (drop_bit 5 N) = T" "take_bit 5 N = 0"
proof -
  show "take_bit 12 (drop_bit 52 N) = K"
    using field_extract [of K 12 "D * 2 ^ 43 + P * 2 ^ 27 + V * 2 ^ 16 + T * 2 ^ 5" 52 0] assms(1-10)
    by (simp add: N_def add.assoc)
  show "take_bit 9 (drop_bit 43 N) = D"
    using field_extract [of D 9 "P * 2 ^ 27 + V * 2 ^ 16 + T * 2 ^ 5" 43 K] assms(1-10)
    by (simp add: N_def add.assoc)
  show "take_bit 16 (drop_bit 27 N) = P"
    using field_extract [of P 16 "V * 2 ^ 16 + T * 2 ^ 5" 27 "K * 2 ^ 9 + D"] assms(1-10)
    by (simp add: N_def algebra_simps)
  show "take_bit 11 (drop_bit 16 N) = V"
    using field_extract [of V 11 "T * 2 ^ 5" 16 "K * 2 ^ 25 + D * 2 ^ 16 + P"] assms(1-10)
    by (simp add: N_def algebra_simps)
  show "take_bit 11 (drop_bit 5 N) = T"
    using field_extract [of T 11 0 5 "K * 2 ^ 36 + D * 2 ^ 27 + P * 2 ^ 11 + V"] assms(1-10)
    by (simp add: N_def algebra_simps)
  have "N = (K * 2 ^ 47 + D * 2 ^ 38 + P * 2 ^ 22 + V * 2 ^ 11 + T) * 2 ^ 5"
    by (simp add: N_def algebra_simps)
  then show "take_bit 5 N = 0"
    by (simp only: take_bit_eq_mod mod_mult_self2_is_0)
qed

lemma u16_hi_byte: "(word_of_int (drop_bit 8 n) :: byte) = ucast (drop_bit 8 (word_of_int n :: 16 word))"
  by (rule bit_word_eqI) (auto simp: bit_simps)

lemma u16_lo_byte: "(word_of_int n :: byte) = ucast (word_of_int n :: 16 word)"
  by (rule bit_word_eqI) (auto simp: bit_simps)

lemma uint_u16_clamped:
  "uint (word_of_int (max 0 (min n 65535)) :: 16 word) = max 0 (min n 65535)"
  by (simp add: uint_word_of_int_eq take_bit_int_eq_self)

lemma float_to_bytes_None: "pk v = None \<Longrightarrow> float_to_bytes pk v = Inl OverflowError"
  by (simp add: float_to_bytes_def)

lemma float_to_bytes_cases:
  "float_to_bytes pk v = Inl OverflowError \<or> (\<exists>bs. float_to_bytes pk v = Inr bs)"
  by (simp add: float_to_bytes_def split: option.splits)

lemma length_ge8_cases:
  assumes "8 \<le> length xs"
  obtains a b c d e f g h rest where "xs = a # b # c # d # e # f # g # h # rest"
proof -
  from assms obtain a b c d e f g h rest where "xs = a # b # c # d # e # f # g # h # rest"
    by (auto simp: Suc_le_length_iff eval_nat_numeral)
  then show ?thesis using that by blast
qed

lemma feedback_dispatch_ge8:
  assumes "data frame = a # b # c # d # e # f # g # h # rest"
  shows "feedback_dispatch unpk frame =
     (if kind_bits frame = 1 then map_sum id Some (decode_type1_feedback frame)
      else if kind_bits frame = 2 then map_sum id Some (decode_type2_feedback frame)
      else if kind_bits frame = 3 then map_sum id Some (decode_type3_feedback unpk frame)
      else if kind_bits frame = 4 then map_sum id Some (decode_type4_feedback frame)
      else if kind_bits frame = 5 then map_sum id Some (decode_type5_feedback frame)
      else Inr None)"
  using assms
  by (simp add: feedback_dispatch_def kind_bits_def py_bind_def py_index_def Let_def)

lemma decoders_ge8:
  assumes "data frame = a # b # c # d # e # f # g # h # rest"
  shows "\<exists>st. decode_type1_feedback frame = Inr st"
    and "\<exists>st. decode_type2_feedback frame = Inr st"
    and "\<exists>st. decode_type3_feedback unpk frame = Inr st"
    and "\<exists>st. decode_type4_feedback frame = Inr st"
    and "\<exists>st. decode_type5_feedback frame = Inr st"
proof -
  show "\<exists>st. decode_type1_feedback frame = Inr st"
    using assms
    by (simp add: decode_type1_feedback_def py_bind_def py_index_def py_slice_def unpack_h_def
        Let_def)
  show "\<exists>st. decode_type2_feedback frame = Inr st"
    using assms
    by (simp add: decode_type2_feedback_def py_bind_def py_index_def py_slice_def unpack_h_def
        Let_def)
  show "\<exists>st. decode_type3_feedback unpk frame = Inr st"
  proof (cases rest)
    case Nil
    with assms show ?thesis
      by (simp add: decode_type3_feedback_def py_bind_def bytes_to_float_def py_slice_def Let_def)
  next
    case (Cons i rest')
    with assms show ?thesis
      by (simp add: decode_type3_feedback_def py_bind_def bytes_to_float_def py_slice_def Let_def)
  qed
  show "\<exists>st. decode_type4_feedback frame = Inr st"
    using assms by (simp add: decode_type4_feedback_def py_bind_def py_index_def Let_def)
  show "\<exists>st. decode_type5_feedback frame = Inr st"
    using assms by (simp add: decode_type5_feedback_def py_bind_def py_index_def Let_def)
qed

lemma feedback_dispatch_ge8_result:
  assumes "8 \<le> length (data frame)"
  shows "(kind_bits frame \<in> {1, 2, 3, 4, 5} \<longrightarrow>
            (\<exists>st. feedback_dispatch unpk frame = Inr (Some st))) \<and>
         (kind_bits frame \<notin> {1, 2, 3, 4, 5} \<longrightarrow> feedback_dispatch unpk frame = Inr None)"
proof -
  from assms obtain a b c d e f g h rest
    where d: "data frame = a # b # c # d # e # f # g # h # rest"
    by (rule length_ge8_cases)
  show ?thesis
    using decoders_ge8(1,2,4,5) [OF d] decoders_ge8(3) [OF d, of unpk]
    by (auto simp: feedback_dispatch_ge8 [OF d])
qed

lemma CANFrame_init_length:
  assumes "CANFrame_init aid d ext = Inr frame"
  shows "data frame = d" and "length d \<le> 8"
  using assms by (auto simp: CANFrame_init_def split: if_splits)

lemma pack_f32_sample_radians_45:
  "pack_f32_sample (radians rnd_sample (Finite 45)) = Some 0x3F490FDB"
  by (simp add: radians_def fmul_c_def rnd_sample_def pack_f32_sample_def math_pi_def
      deg_to_rad_def)

lemma encode_servo_position_command_ok:
  assumes "pk (radians rnd pos) = Some w1" "pk speed = Some w2" "pk cur = Some w3"
    and "py_int (fmul_c rnd speed 10) = Inr s" "py_int (fmul_c rnd cur 100) = Inr c"
  shows "encode_servo_position_command pk rnd mid pos speed cur =
     Inr \<lparr>arbitration_id = mid,
          data = be32_bytes w1
            @ [word_of_int (drop_bit 8 (max 0 (min s 65535))),
               word_of_int (max 0 (min s 65535))]
            @ [word_of_int (drop_bit 8 (max 0 (min c 65535))),
               word_of_int (max 0 (min c 65535))],
          is_extended = False\<rparr>"
  using assms
  by (simp add: encode_servo_position_command_def float_to_bytes_def py_bind_def Let_def
      to_bytes_2_big_clamped CANFrame_init_def be32_bytes_def)

lemma encode_servo_speed_command_ok:
  assumes "pk speed = Some w1" "pk cur = Some w2"
  shows "encode_servo_speed_command pk mid speed cur =
     Inr \<lparr>arbitration_id = mid, data = be32_bytes w1 @ be32_bytes w2, is_extended = False\<rparr>"
  using assms
  by (simp add: encode_servo_speed_command_def float_to_bytes_def py_bind_def
      CANFrame_init_def be32_bytes_def)

lemma set_position_True:
  assumes "set_position pk rnd m hw now p s c mode = (True, m', hw')"
  shows "m' = m\<lparr>last_command_time := now\<rparr>"
proof -
  from assms obtain encoded where "send_command m hw now encoded = (True, m', hw')"
    unfolding set_position_def by (auto split: if_splits)
  then show ?thesis by (rule send_command_True)
qed

lemma set_velocity_True:
  assumes "set_velocity pk m hw now v c = (True, m', hw')"
  shows "m' = m\<lparr>last_command_time := now\<rparr>"
proof -
  from assms obtain encoded where "send_command m hw now encoded = (True, m', hw')"
    unfolding set_velocity_def by (auto split: if_splits)
  then show ?thesis by (rule send_command_True)
qed

lemma set_velocity_run:
  "set_velocity pack_f32_sample
     \<lparr>motor_id = 1, last_status = None, is_enabled = False, last_command_time = 0,
      max_position_deg = 360, max_velocity_rpm = 1000, max_current_a = 10, max_torque_nm = 5\<rparr>
     \<lparr>is_connected = True, bus_send_ok = True, sent = [], message_callbacks = [0]\<rparr>
     1000 50 5
   = (True,
      \<lparr>motor_id = 1, last_status = None, is_enabled = False, last_command_time = 1000,
       max_position_deg = 360, max_velocity_rpm = 1000, max_current_a = 10, max_torque_nm = 5\<rparr>,
      \<lparr>is_connected = True, bus_send_ok = True,
       sent = [\<lparr>arbitration_id = 1,
                data = [0x42, 0x48, 0x00, 0x00, 0x40, 0xA0, 0x00, 0x00],
                is_extended = False\<rparr>],
       message_callbacks = [0]\<rparr>)"
proof -
  have p1: "pack_f32_sample (Finite 50) = Some 0x42480000"
    and p2: "pack_f32_sample (Finite 5) = Some 0x40A00000"
    by (simp_all add: pack_f32_sample_def)
  show ?thesis
    by (simp add: set_velocity_def check_velocity_safe_def check_current_safe_def
        send_command_def send_frame_def encode_servo_speed_command_ok [OF p1 p2] be32_bytes_def)
qed

lemma set_zero_point_run:
  "set_zero_point
     \<lparr>motor_id = 1, last_status = None, is_enabled = False, last_command_time = 1000,
      max_position_deg = 360, max_velocity_rpm = 1000, max_current_a = 10, max_torque_nm = 5\<rparr>
     \<lparr>is_connected = True, bus_send_ok = True,
      sent = [\<lparr>arbitration_id = 1,
               data = [0x42, 0x48, 0x00, 0x00, 0x40, 0xA0, 0x00, 0x00],
               is_extended = False\<rparr>],
      message_callbacks = [0]\<rparr>
     2000
   = (True,
      \<lparr>motor_id = 1, last_status = None, is_enabled = False, last_command_time = 1000,
       max_position_deg = 360, max_velocity_rpm = 1000, max_current_a = 10, max_torque_nm = 5\<rparr>,
      \<lparr>is_connected = True, bus_send_ok = True,
       sent = [\<lparr>arbitration_id = 1,
                data = [0x42, 0x48, 0x00, 0x00, 0x40, 0xA0, 0x00, 0x00],
                is_extended = False\<rparr>,
               \<lparr>arbitration_id = 1,
                data = [0x55, 0xAA, 0x00, 0x00, 0x00, 0x00, 0x00, 0x00],
                is_extended = False\<rparr>],
       message_callbacks = [0]\<rparr>,
      2000.5)"
  by (simp add: set_zero_point_def encode_set_zero_point_def CANFrame_init_def send_frame_def
      COMMAND_INTERVAL_MS_def)

lemma trunc_clamp:
  fixes x :: real
  assumes "0 \<le> n"
  shows "max 0 (min (if 0 \<le> x then \<lfloor>x\<rfloor> else \<lceil>x\<rceil>) n) = \<lfloor>max 0 (min x (of_int n))\<rfloor>"
proof -
  consider "x < 0" | "0 \<le> x" "x < of_int n" | "of_int n \<le> x" by linarith
  then show ?thesis
  proof cases
    case 1
    then have "\<lceil>x\<rceil> \<le> 0" by (simp add: ceiling_le_iff)
    then have "min \<lceil>x\<rceil> n \<le> 0" by linarith
    then have "max 0 (min \<lceil>x\<rceil> n) = 0" by linarith
    then have l: "max 0 (min (if 0 \<le> x then \<lfloor>x\<rfloor> else \<lceil>x\<rceil>) n) = 0"
      using 1 by (simp only: not_le [symmetric] if_False)
    have "min x (of_int n) < 0" using 1 by simp
    then have "max 0 (min x (of_int n)) = 0" by simp
    with l show ?thesis by simp
  next
    case 2
    then have "0 \<le> \<lfloor>x\<rfloor>" "\<lfloor>x\<rfloor> < n" by (simp_all add: floor_less_iff)
    with 2 show ?thesis by (simp add: max_def min_def)
  next
    case 3
    then have "n \<le> \<lfloor>x\<rfloor>" by (simp add: le_floor_iff)
    moreover from 3 assms have "0 \<le> x" by (meson of_int_0_le_iff order_trans)
    ultimately show ?thesis using 3 assms by (simp add: max_def min_def)
  qed
qed

lemma py_int_Finite_clamp:
  assumes "0 \<le> n"
  shows "py_bind (py_int (Finite x)) (\<lambda>i. Inr (max 0 (min i n)))
           = Inr \<lfloor>max 0 (min x (of_int n))\<rfloor>"
  using trunc_clamp [OF assms, of x] by (simp add: py_int_def py_bind_def)

lemma py_int_not_finite:
  assumes "\<not> is_finite x"
  shows "py_int x = Inl ValueError \<or> py_int x = Inl OverflowError"
  using assms by (cases x) (simp_all add: is_finite_def py_int_def)

lemma py_int_cases:
  "(\<exists>i. py_int x = Inr i) \<or> py_int x = Inl ValueError \<or> py_int x = Inl OverflowError"
  by (cases x) (simp_all add: py_int_def)

lemma not_finite_iff: "\<not> is_finite x \<longleftrightarrow> (\<forall>r. x \<noteq> Finite r)"
  by (cases x) (simp_all add: is_finite_def)

lemma command_data_sum:
  fixes K D P V T :: int
  assumes r: "0 \<le> K" "K < 4096" "0 \<le> D" "D < 512" "0 \<le> P" "P < 65536"
    "0 \<le> V" "V < 2048" "0 \<le> T" "T < 2048"
  shows "command_data K D P V T = K * 2 ^ 52 + D * 2 ^ 43 + P * 2 ^ 27 + V * 2 ^ 16 + T * 2 ^ 5"
proof -
  have m: "K AND 0xFFF = K" "D AND 0x1FF = D" "P AND 0xFFFF = P" "V AND 0x7FF = V"
    "T AND 0x7FF = T"
    using r and_mask_self [of K 12] and_mask_self [of D 9] and_mask_self [of P 16]
      and_mask_self [of V 11] and_mask_self [of T 11]
    by simp_all
  let ?e = "T * 2 ^ 5"
  let ?d = "V * 2 ^ 16 + ?e"
  let ?c = "P * 2 ^ 27 + ?d"
  let ?b = "D * 2 ^ 43 + ?c"
  have e: "push_bit 5 T = ?e" by (simp add: push_bit_eq_mult)
  have be: "0 \<le> ?e" "?e < 2 ^ 16" using r by simp_all
  have d: "push_bit 16 V OR ?e = ?d" using be by (rule or_push_bit_disjoint)
  have bd: "0 \<le> ?d" "?d < 2 ^ 27" using r by simp_all
  have c: "push_bit 27 P OR ?d = ?c" using bd by (rule or_push_bit_disjoint)
  have bc: "0 \<le> ?c" "?c < 2 ^ 43" using r by simp_all
  have b: "push_bit 43 D OR ?c = ?b" using bc by (rule or_push_bit_disjoint)
  have bb: "0 \<le> ?b" "?b < 2 ^ 52" using r by simp_all
  have a: "push_bit 52 K OR ?b = K * 2 ^ 52 + ?b"
    using bb by (rule or_push_bit_disjoint)
  have "command_data K D P V T =
      push_bit 52 K OR (push_bit 43 D OR (push_bit 27 P OR (push_bit 16 V OR push_bit 5 T)))"
    unfolding command_data_def m by (simp only: or.assoc or.left_neutral)
  also have "\<dots> = K * 2 ^ 52 + ?b"
    unfolding e d c b a ..
  finally show ?thesis by (simp only: add.assoc)
qed

lemma command_data_range:
  fixes K D P V T :: int
  assumes r: "0 \<le> K" "K < 4096" "0 \<le> D" "D < 512" "0 \<le> P" "P < 65536"
    "0 \<le> V" "V < 2048" "0 \<le> T" "T < 2048"
  shows "0 \<le> command_data K D P V T" "command_data K D P V T < 2 ^ 64"
  using r unfolding command_data_sum [OF r] by simp_all

lemma encode_force_position_command_bytes:
  assumes "kp_int kp = Inr K" "kd_int kd = Inr D" "pos_int rnd pos = Inr P"
    "vel_int rnd vel = Inr V" "tor_int rnd tor = Inr T"
  shows "encode_force_position_command rnd mid kp kd pos vel tor =
     Inr \<lparr>arbitration_id = mid,
          data = [word_of_int (drop_bit 56 (command_data K D P V T)),
                  word_of_int (drop_bit 48 (command_data K D P V T)),
                  word_of_int (drop_bit 40 (command_data K D P V T)),
                  word_of_int (drop_bit 32 (command_data K D P V T)),
                  word_of_int (drop_bit 24 (command_data K D P V T)),
                  word_of_int (drop_bit 16 (command_data K D P V T)),
                  word_of_int (drop_bit 8 (command_data K D P V T)),
                  word_of_int (command_data K D P V T)],
          is_extended = False\<rparr>"
  using assms
  by (simp add: encode_force_position_command_def Let_def upt_0_8 py_bytes_def py_bind_def
      CANFrame_init_def and_255 byte_of_and_255 byte_range)

lemma py_bind_raises:
  assumes "m = Inl ValueError \<or> m = Inl OverflowError"
  shows "py_bind m f = Inl ValueError \<or> py_bind m f = Inl OverflowError"
  using assms by (auto simp: py_bind_def)

lemma clamp_stage:
  "(\<exists>i. is_finite x \<and> py_bind (py_int x) (\<lambda>i. Inr (max 0 (min i n))) = Inr i)
     \<or> py_bind (py_int x) (\<lambda>i. Inr (max 0 (min i n))) = Inl ValueError
     \<or> py_bind (py_int x) (\<lambda>i. Inr (max 0 (min i n))) = Inl OverflowError"
  by (cases x) (simp_all add: py_int_def py_bind_def is_finite_def)

lemma encode_force_position_command_raises:
  assumes "\<not> is_finite kp \<or> \<not> is_finite kd
     \<or> \<not> is_finite (fmul_c rnd (pos_normalized rnd pos) 65535)
     \<or> \<not> is_finite (fmul_c rnd (vel_normalized rnd vel) 2047)
     \<or> \<not> is_finite (fmul_c rnd (tor_normalized rnd tor) 2047)"
  shows "encode_force_position_command rnd mid kp kd pos vel tor = Inl ValueError
     \<or> encode_force_position_command rnd mid kp kd pos vel tor = Inl OverflowError"
proof -
  let ?R = "\<lambda>r :: py_error + CANFrame. r = Inl ValueError \<or> r = Inl OverflowError"
  note d = encode_force_position_command_def
  have s1: "(\<exists>i. is_finite kp \<and> kp_int kp = Inr i) \<or> kp_int kp = Inl ValueError
      \<or> kp_int kp = Inl OverflowError"
    unfolding kp_int_def by (rule clamp_stage)
  have s2: "(\<exists>i. is_finite kd \<and> kd_int kd = Inr i) \<or> kd_int kd = Inl ValueError
      \<or> kd_int kd = Inl OverflowError"
    unfolding kd_int_def by (rule clamp_stage)
  have s3: "(\<exists>i. is_finite (fmul_c rnd (pos_normalized rnd pos) 65535) \<and> pos_int rnd pos = Inr i)
      \<or> pos_int rnd pos = Inl ValueError \<or> pos_int rnd pos = Inl OverflowError"
    unfolding pos_int_def by (rule clamp_stage)
  have s4: "(\<exists>i. is_finite (fmul_c rnd (vel_normalized rnd vel) 2047) \<and> vel_int rnd vel = Inr i)
      \<or> vel_int rnd vel = Inl ValueError \<or> vel_int rnd vel = Inl OverflowError"
    unfolding vel_int_def by (rule clamp_stage)
  have s5: "(\<exists>i. is_finite (fmul_c rnd (tor_normalized rnd tor) 2047) \<and> tor_int rnd tor = Inr i)
      \<or> tor_int rnd tor = Inl ValueError \<or> tor_int rnd tor = Inl OverflowError"
    unfolding tor_int_def by (rule clamp_stage)
  show ?thesis
  proof (cases "kp_int kp = Inl ValueError \<or> kp_int kp = Inl OverflowError")
    case True
    then show ?thesis unfolding d by (rule py_bind_raises)
  next
    case False
    with s1 obtain K where k: "is_finite kp" "kp_int kp = Inr K" by blast
    show ?thesis
    proof (cases "kd_int kd = Inl ValueError \<or> kd_int kd = Inl OverflowError")
      case True
      then show ?thesis unfolding d by (auto simp: k py_bind_def)
    next
      case False
      with s2 obtain D where dd: "is_finite kd" "kd_int kd = Inr D" by blast
      show ?thesis
      proof (cases "pos_int rnd pos = Inl ValueError \<or> pos_int rnd pos = Inl OverflowError")
        case True
        then show ?thesis unfolding d by (auto simp: k dd py_bind_def)
      next
        case False
        with s3 obtain P where p: "is_finite (fmul_c rnd (pos_normalized rnd pos) 65535)"
          "pos_int rnd pos = Inr P" by blast
        show ?thesis
        proof (cases "vel_int rnd vel = Inl ValueError \<or> vel_int rnd vel = Inl OverflowError")
          case True
          then show ?thesis unfolding d by (auto simp: k dd p py_bind_def)
        next
          case False
          with s4 obtain V where v: "is_finite (fmul_c rnd (vel_normalized rnd vel) 2047)"
            "vel_int rnd vel = Inr V" by blast
          from assms k(1) dd(1) p(1) v(1)
          have "\<not> is_finite (fmul_c rnd (tor_normalized rnd tor) 2047)" by blast
          with s5 have "tor_int rnd tor = Inl ValueError \<or> tor_int rnd tor = Inl OverflowError"
            by blast
          then show ?thesis unfolding d by (auto simp: k dd p v py_bind_def)
        qed
      qed
    qed
  qed
qed

lemma py_int_Finite: "py_int (Finite x) = Inr (if 0 \<le> x then \<lfloor>x\<rfloor> else \<lceil>x\<rceil>)"
  by (simp add: py_int_def)

lemma encode_servo_position_command_overflow:
  assumes "pk (radians rnd pos) = None \<or> pk speed = None \<or> pk cur = None"
  shows "encode_servo_position_command pk rnd mid pos speed cur = Inl OverflowError"
  using assms float_to_bytes_cases [of pk "radians rnd pos"] float_to_bytes_cases [of pk speed]
  by (auto simp: encode_servo_position_command_def py_bind_def float_to_bytes_None)

lemma encode_servo_position_command_raises:
  assumes "pk (radians rnd pos) = Some w1" "pk speed = Some w2" "pk cur = Some w3"
    and "\<not> is_finite (fmul_c rnd speed 10) \<or> \<not> is_finite (fmul_c rnd cur 100)"
  shows "encode_servo_position_command pk rnd mid pos speed cur = Inl ValueError
     \<or> encode_servo_position_command pk rnd mid pos speed cur = Inl OverflowError"
proof -
  have d: "encode_servo_position_command pk rnd mid pos speed cur =
     py_bind (py_int (fmul_c rnd speed 10)) (\<lambda>speed_i.
     py_bind (py_int (fmul_c rnd cur 100)) (\<lambda>current_i.
     py_bind (to_bytes_2_big (max 0 (min speed_i 65535))) (\<lambda>b45.
     py_bind (to_bytes_2_big (max 0 (min current_i 65535))) (\<lambda>b67.
     CANFrame_init mid (be32_bytes w1 @ b45 @ b67) False))))"
    using assms(1-3)
    by (simp add: encode_servo_position_command_def float_to_bytes_def py_bind_def Let_def)
  show ?thesis
  proof (cases "py_int (fmul_c rnd speed 10) = Inl ValueError
      \<or> py_int (fmul_c rnd speed 10) = Inl OverflowError")
    case True
    then show ?thesis unfolding d by (rule py_bind_raises)
  next
    case False
    with py_int_cases [of "fmul_c rnd speed 10"] obtain s
      where s: "py_int (fmul_c rnd speed 10) = Inr s" by blast
    from False py_int_not_finite [of "fmul_c rnd speed 10"]
    have "is_finite (fmul_c rnd speed 10)" by blast
    with assms(4) have "\<not> is_finite (fmul_c rnd cur 100)" by blast
    then have "py_int (fmul_c rnd cur 100) = Inl ValueError
        \<or> py_int (fmul_c rnd cur 100) = Inl OverflowError"
      by (rule py_int_not_finite)
    then show ?thesis unfolding d by (auto simp: s py_bind_def)
  qed
qed

subsection \<open>Error report frames\<close>

text \<open>
  C5. An 8-byte frame whose kind bits are 5 decodes to a status whose error is chosen by
  the first set bit of byte 1 in the order bit 0 (over-voltage), bit 1 (under-voltage),
  bit 2 (over-current), bit 3 (over-temperature), bit 4 (encoder), bit 5 (hall); a
  nonzero byte with none of these bits is the unknown error, the zero byte is no error.
  The witness is the byte 0x05, which decodes to over-voltage only.
\<close>

theorem decode_type5_priority:
  assumes "length (data frame) = 8" and "kind_bits frame = 5"
  shows "decode_feedback unpk frame =
     Some ((MotorStatus_init (arbitration_id frame))
        \<lparr>error_code :=
           (let b = data frame ! 1 in
            if bit b 0 then OVER_VOLTAGE
            else if bit b 1 then UNDER_VOLTAGE
            else if bit b 2 then OVER_CURRENT
            else if bit b 3 then OVER_TEMPERATURE
            else if bit b 4 then ENCODER_ERROR
            else if bit b 5 then HALL_ERROR
            else if b \<noteq> 0 then UNKNOWN_ERROR
            else NO_ERROR),
         feedback_type := Some TYPE_5\<rparr>)"
proof -
  from assms(1) obtain a b c d e f g h where d: "data frame = [a, b, c, d, e, f, g, h]"
    by (rule length8_cases)
  have "decode_feedback unpk frame =
      Some ((MotorStatus_init (arbitration_id frame))
             \<lparr>error_code := error_code_of_raw (uint b), feedback_type := Some TYPE_5\<rparr>)"
    using assms(2)
    by (simp add: decode_feedback_def d feedback_dispatch_8 [OF d] decode_type5_8 [OF d])
  then show ?thesis
    by (simp add: d error_code_of_raw_bits Let_def del: bit_0)
qed

theorem decode_type5_priority_witness:
  "length (data \<lparr>arbitration_id = 1, data = [0xA0, 0x05, 0, 0, 0, 0, 0, 0],
                 is_extended = False\<rparr>) = 8 \<and>
   kind_bits \<lparr>arbitration_id = 1, data = [0xA0, 0x05, 0, 0, 0, 0, 0, 0],
              is_extended = False\<rparr> = 5 \<and>
   map_option error_code
     (decode_feedback unpack_f32
        \<lparr>arbitration_id = 1, data = [0xA0, 0x05, 0, 0, 0, 0, 0, 0], is_extended = False\<rparr>)
     = Some OVER_VOLTAGE"
proof -
  let ?f = "\<lparr>arbitration_id = 1, data = [0xA0, 0x05, 0, 0, 0, 0, 0, 0 :: byte],
             is_extended = False\<rparr>"
  have l: "length (data ?f) = 8" by simp
  have k: "kind_bits ?f = 5" by (simp add: kind_bits_def)
  show ?thesis
    using l k decode_type5_priority [OF l k, of unpack_f32] by simp
qed

subsection \<open>Kind-1 feedback frames\<close>

text \<open>
  C3 (as amended). An 8-byte frame whose kind bits are 1 decodes to a status with
  position = the unsigned 16-bit big-endian value of bytes 1-2 times the position LSB
  6.28318 / 65536 rad (the constant \<open>POSITION_SCALE\<close>, which is not \<open>2 * pi / 65536\<close>),
  converted to degrees; velocity = the signed 16-bit big-endian value of bytes 3-4 times
  0.1; torque = the signed 16-bit big-endian value of bytes 5-6 times 0.01; temperature =
  byte 7 times 0.1; the other fields keep their defaults.
\<close>

theorem decode_type1_fields:
  assumes "length (data frame) = 8" and "kind_bits frame = 1"
  shows "decode_feedback unpk frame =
     Some ((MotorStatus_init (arbitration_id frame))
        \<lparr>position := degrees (real (unat (be16 (data frame ! 1) (data frame ! 2))) * (6.28318 / 65536)),
         velocity := real_of_int (sint (be16 (data frame ! 3) (data frame ! 4))) * 0.1,
         torque := real_of_int (sint (be16 (data frame ! 5) (data frame ! 6))) * 0.01,
         temperature := real (unat (data frame ! 7)) * 0.1,
         feedback_type := Some TYPE_1\<rparr>)"
proof -
  from assms(1) obtain a b c d e f g h where d: "data frame = [a, b, c, d, e, f, g, h]"
    by (rule length8_cases)
  show ?thesis
    using assms(2)
    by (simp add: decode_feedback_def d feedback_dispatch_8 [OF d] decode_type1_8 [OF d]
        POSITION_SCALE_def VELOCITY_SCALE_def TORQUE_SCALE_def TEMPERATURE_SCALE_def)
qed

theorem decode_type1_fields_witness:
  "length (data \<lparr>arbitration_id = 1, data = [0x20, 0x10, 0x00, 0x00, 0x01, 0xFF, 0xFE, 0x1E],
                 is_extended = False\<rparr>) = 8 \<and>
   kind_bits \<lparr>arbitration_id = 1, data = [0x20, 0x10, 0x00, 0x00, 0x01, 0xFF, 0xFE, 0x1E],
              is_extended = False\<rparr> = 1 \<and>
   decode_feedback unpack_f32
     \<lparr>arbitration_id = 1, data = [0x20, 0x10, 0x00, 0x00, 0x01, 0xFF, 0xFE, 0x1E],
      is_extended = False\<rparr> =
     Some ((MotorStatus_init 1)
        \<lparr>position := degrees (4096 * (6.28318 / 65536)), velocity := 0.1,
         torque := - 0.02, temperature := 3, feedback_type := Some TYPE_1\<rparr>)"
proof -
  let ?f = "\<lparr>arbitration_id = 1, data = [0x20, 0x10, 0x00, 0x00, 0x01, 0xFF, 0xFE, 0x1E :: byte],
             is_extended = False\<rparr>"
  have l: "length (data ?f) = 8" by simp
  have k: "kind_bits ?f = 1" by (simp add: kind_bits_def)
  show ?thesis
    using l k decode_type1_fields [OF l k, of unpack_f32] by (simp add: be16_def)
qed

text \<open>
  With the LSB \<open>2 * pi / 65536\<close> the claim fails: on the payload 20 10 00 01 00 00 10 1E
  of the repository's tests the raw position is 4096, which would be 22.5 degrees, and
  the decoder returns \<open>4096 * (6.28318 / 65536)\<close> rad in degrees, which is less.
\<close>

theorem decode_type1_two_pi_counterexample:
  "map_option position
     (decode_feedback unpack_f32
        \<lparr>arbitration_id = 1, data = [0x20, 0x10, 0x00, 0x01, 0x00, 0x00, 0x10, 0x1E],
         is_extended = False\<rparr>)
   \<noteq> Some (degrees (real (unat (be16 0x10 0x00)) * (2 * pi / 65536)))"
proof -
  let ?f = "\<lparr>arbitration_id = 1, data = [0x20, 0x10, 0x00, 0x01, 0x00, 0x00, 0x10, 0x1E :: byte],
             is_extended = False\<rparr>"
  have d: "data ?f = [0x20, 0x10, 0x00, 0x01, 0x00, 0x00, 0x10, 0x1E]" by simp
  have k: "kind_bits ?f = 1" by (simp add: kind_bits_def)
  have e: "map_option position (decode_feedback unpack_f32 ?f)
          = Some (degrees (real (unat (be16 0x10 0x00)) * POSITION_SCALE))"
    using k by (simp add: decode_feedback_def feedback_dispatch_8 [OF d] decode_type1_8 [OF d])
  have n: "degrees (real (unat (be16 0x10 0x00)) * POSITION_SCALE)
      \<noteq> degrees (real (unat (be16 0x10 0x00)) * (2 * pi / 65536))"
  proof -
    have u: "real (unat (be16 0x10 0x00)) = 4096" by (simp add: be16_def)
    have inj: "x = y" if "degrees x = degrees y" for x y
      using that by (simp add: degrees_def)
    have "(4096::real) * (6.28318 / 65536) \<noteq> 4096 * (2 * pi / 65536)"
      using pi_gt_314159 by simp
    then have "real (unat (be16 0x10 0x00)) * POSITION_SCALE
        \<noteq> real (unat (be16 0x10 0x00)) * (2 * pi / 65536)"
      unfolding u POSITION_SCALE_def .
    then show ?thesis using inj by blast
  qed
  show ?thesis unfolding e using n by (simp only: option.inject not_False_eq_True)
qed

subsection \<open>Frames that do not decode\<close>

text \<open>
  C6 (as amended). \<open>decode_feedback\<close> returns \<open>None\<close> exactly when the payload is shorter
  than 8 bytes or the top three bits of byte 0 are not one of 1..5. A frame that the
  \<open>CANFrame\<close> constructor builds, extended or not, has at most 8 bytes, so for such a frame
  every payload length other than 8 gives \<open>None\<close>. No exception leaves \<open>decode_feedback\<close>:
  whatever the dispatch raises becomes \<open>None\<close>, and on a payload of 8 bytes or more the
  dispatch raises nothing.
\<close>

theorem decode_feedback_fails_closed:
  "(decode_feedback unpk frame = None \<longleftrightarrow>
      length (data frame) < 8 \<or> kind_bits frame \<notin> {1, 2, 3, 4, 5}) \<and>
   (CANFrame_init aid d ext = Inr frame \<and> length d \<noteq> 8 \<longrightarrow>
      decode_feedback unpk frame = None) \<and>
   (\<forall>e. feedback_dispatch unpk frame = Inl e \<longrightarrow> decode_feedback unpk frame = None) \<and>
   (8 \<le> length (data frame) \<longrightarrow> (\<exists>r. feedback_dispatch unpk frame = Inr r))"
proof -
  have 1: "decode_feedback unpk frame = None \<longleftrightarrow>
      length (data frame) < 8 \<or> kind_bits frame \<notin> {1, 2, 3, 4, 5}"
  proof (cases "length (data frame) < 8")
    case True
    then show ?thesis by (simp add: decode_feedback_def)
  next
    case False
    then have "8 \<le> length (data frame)" by simp
    from feedback_dispatch_ge8_result [OF this, of unpk] False show ?thesis
      by (cases "kind_bits frame \<in> {1, 2, 3, 4, 5}") (auto simp: decode_feedback_def)
  qed
  have 2: "decode_feedback unpk frame = None"
    if "CANFrame_init aid d ext = Inr frame \<and> length d \<noteq> 8"
  proof -
    from that CANFrame_init_length [of aid d ext frame] have "length (data frame) < 8" by auto
    then show ?thesis by (simp add: decode_feedback_def)
  qed
  have 3: "decode_feedback unpk frame = None" if "feedback_dispatch unpk frame = Inl e" for e
    using that by (simp add: decode_feedback_def)
  have 4: "\<exists>r. feedback_dispatch unpk frame = Inr r" if "8 \<le> length (data frame)"
    using feedback_dispatch_ge8_result [OF that, of unpk] by blast
  from 1 2 3 4 show ?thesis by blast
qed

theorem decode_feedback_fails_closed_witness:
  "CANFrame_init 1 [0x20, 0x10, 0x00] True =
     Inr \<lparr>arbitration_id = 1, data = [0x20, 0x10, 0x00], is_extended = True\<rparr> \<and>
   length [0x20, 0x10, 0x00 :: byte] \<noteq> 8 \<and>
   decode_feedback unpack_f32
     \<lparr>arbitration_id = 1, data = [0x20, 0x10, 0x00], is_extended = True\<rparr> = None \<and>
   kind_bits \<lparr>arbitration_id = 1, data = [0xC0, 0x10, 0x00, 0x01, 0x00, 0x00, 0x10, 0x1E],
          is_extended = False\<rparr> \<notin> {1, 2, 3, 4, 5} \<and>
   decode_feedback unpack_f32
     \<lparr>arbitration_id = 1, data = [0xC0, 0x10, 0x00, 0x01, 0x00, 0x00, 0x10, 0x1E],
      is_extended = False\<rparr> = None \<and>
   feedback_dispatch unpack_f32 \<lparr>arbitration_id = 1, data = [], is_extended = False\<rparr>
     = Inl IndexError \<and>
   decode_feedback unpack_f32 \<lparr>arbitration_id = 1, data = [], is_extended = False\<rparr> = None \<and>
   decode_feedback unpack_f32
     \<lparr>arbitration_id = 1, data = [0xA0, 0x05, 0x00, 0x00, 0x00, 0x00, 0x00, 0x00],
      is_extended = True\<rparr> \<noteq> None"
proof -
  let ?short = "\<lparr>arbitration_id = 1, data = [0x20, 0x10, 0x00 :: byte], is_extended = True\<rparr>"
  let ?kind6 = "\<lparr>arbitration_id = 1, data = [0xC0, 0x10, 0x00, 0x01, 0x00, 0x00, 0x10, 0x1E :: byte],
          is_extended = False\<rparr>"
  let ?empty = "\<lparr>arbitration_id = 1, data = [] :: byte list, is_extended = False\<rparr>"
  let ?err = "\<lparr>arbitration_id = 1, data = [0xA0, 0x05, 0x00, 0x00, 0x00, 0x00, 0x00, 0x00 :: byte],
      is_extended = True\<rparr>"
  have a: "CANFrame_init 1 [0x20, 0x10, 0x00] True = Inr ?short"
    by (simp add: CANFrame_init_def)
  have k: "kind_bits ?kind6 \<notin> {1, 2, 3, 4, 5}" and k5: "kind_bits ?err \<in> {1, 2, 3, 4, 5}"
    by (simp_all add: kind_bits_def)
  have i: "feedback_dispatch unpack_f32 ?empty = Inl IndexError"
    by (simp add: feedback_dispatch_def py_index_def py_bind_def)
  show ?thesis
    using a k k5 i
      decode_feedback_fails_closed [of unpack_f32 ?short 1 "[0x20, 0x10, 0x00]" True]
      decode_feedback_fails_closed [of unpack_f32 ?kind6]
      decode_feedback_fails_closed [of unpack_f32 ?empty]
      decode_feedback_fails_closed [of unpack_f32 ?err]
    by simp
qed

text \<open>
  The length test is \<open>len(frame.data) < 8\<close>: a payload of 9 bytes, which the constructor
  refuses and for which \<open>_decode_type3_feedback\<close> provides, is not turned away. Its length
  is not 8 and the result is not \<open>None\<close>.
\<close>

theorem decode_feedback_nine_bytes_counterexample:
  "length (data \<lparr>arbitration_id = 1,
                 data = [0x20, 0x10, 0x00, 0x01, 0x00, 0x00, 0x10, 0x1E, 0x00],
                 is_extended = False\<rparr>) \<noteq> 8 \<and>
   decode_feedback unpack_f32
     \<lparr>arbitration_id = 1, data = [0x20, 0x10, 0x00, 0x01, 0x00, 0x00, 0x10, 0x1E, 0x00],
      is_extended = False\<rparr> \<noteq> None"
  by (simp add: decode_feedback_def feedback_dispatch_def decode_type1_feedback_def py_bind_def
      py_index_def py_slice_def unpack_h_def Let_def)

subsection \<open>Address discovery responses\<close>

text \<open>
  C9. \<open>decode_id_query_response\<close> returns \<open>None\<close> when the frame's address is not 0;
  otherwise the values it returns are exactly the payload byte values lying in 1..32, and
  it returns \<open>None\<close> exactly when no payload byte lies in that range.
\<close>

theorem decode_id_query_response_set:
  "(arbitration_id frame \<noteq> 0 \<longrightarrow> decode_id_query_response frame = None) \<and>
   (arbitration_id frame = 0 \<longrightarrow>
      (case decode_id_query_response frame of
         None \<Rightarrow> \<not> (\<exists>b \<in> set (data frame). 1 \<le> uint b \<and> uint b \<le> 32)
       | Some ids \<Rightarrow>
           set ids = {v. \<exists>b \<in> set (data frame). v = uint b \<and> 1 \<le> v \<and> v \<le> 32} \<and> ids \<noteq> []))"
  by (auto simp: decode_id_query_response_def Let_def filter_empty_conv)

theorem decode_id_query_response_set_witness:
  "decode_id_query_response
     \<lparr>arbitration_id = 1, data = [0x01, 0x02, 0, 0, 0, 0, 0, 0], is_extended = False\<rparr> = None \<and>
   decode_id_query_response
     \<lparr>arbitration_id = 0, data = [0x55, 0xAA, 0, 0, 0x21, 0, 0, 0], is_extended = False\<rparr> = None \<and>
   map_option set (decode_id_query_response
     \<lparr>arbitration_id = 0, data = [0x03, 0xAA, 0x01, 0x03, 0x20, 0, 0, 0], is_extended = False\<rparr>)
     = Some {1, 3, 32}"
  using
    decode_id_query_response_set
      [of "\<lparr>arbitration_id = 1, data = [0x01, 0x02, 0, 0, 0, 0, 0, 0], is_extended = False\<rparr>"]
    decode_id_query_response_set
      [of "\<lparr>arbitration_id = 0, data = [0x55, 0xAA, 0, 0, 0x21, 0, 0, 0], is_extended = False\<rparr>"]
    decode_id_query_response_set
      [of "\<lparr>arbitration_id = 0, data = [0x03, 0xAA, 0x01, 0x03, 0x20, 0, 0, 0], is_extended = False\<rparr>"]
  by (auto simp: decode_id_query_response_def split: option.splits)

subsection \<open>Safety gate of the position command\<close>

text \<open>
  C2. If the magnitude of the position exceeds \<open>max_position_deg\<close>, or the magnitude of
  the speed limit exceeds \<open>max_velocity_rpm\<close>, or the current limit exceeds
  \<open>max_current_a\<close>, then \<open>set_position\<close> returns \<open>False\<close> and leaves the motor and the
  transport as they were: no frame is sent. If the three values are within their limits,
  the encoder of the chosen mode yields a frame and the transport accepts it, the call
  returns \<open>True\<close> and that frame is sent. The witness is a motor with
  \<open>max_position_deg = 90\<close>: 180 degrees is refused, 45 degrees is sent.
\<close>

theorem set_position_safety_gate:
  "((\<bar>position_deg\<bar> > max_position_deg m \<or> \<bar>speed_limit_rpm\<bar> > max_velocity_rpm m
       \<or> current_limit_a > max_current_a m) \<longrightarrow>
      set_position pk rnd m hw now position_deg speed_limit_rpm current_limit_a mode = (False, m, hw))
   \<and>
   (\<bar>position_deg\<bar> \<le> max_position_deg m \<and> \<bar>speed_limit_rpm\<bar> \<le> max_velocity_rpm m
       \<and> current_limit_a \<le> max_current_a m
       \<and> (mode = ''servo'' \<and>
              encode_servo_position_command pk rnd (motor_id m) (Finite position_deg)
                (Finite speed_limit_rpm) (Finite current_limit_a) = Inr frame
            \<or> mode = ''force'' \<and>
              encode_force_position_command rnd (motor_id m) (Finite 50) (Finite 5)
                (fdiv_c rnd (fmul_c rnd (Finite position_deg) lit_3_14159) 180)
                (Finite 0) (Finite 0) = Inr frame)
       \<and> is_connected hw \<and> bus_send_ok hw \<longrightarrow>
      set_position pk rnd m hw now position_deg speed_limit_rpm current_limit_a mode
        = (True, m\<lparr>last_command_time := now\<rparr>, hw\<lparr>sent := sent hw @ [frame]\<rparr>))"
  by (auto simp: set_position_def check_position_safe_def check_velocity_safe_def
      check_current_safe_def send_command_def send_frame_def)

theorem set_position_safety_gate_witness:
  "set_position pack_f32_sample rnd_sample
     \<lparr>motor_id = 1, last_status = None, is_enabled = False, last_command_time = 0,
      max_position_deg = 90, max_velocity_rpm = 1000, max_current_a = 10, max_torque_nm = 5\<rparr>
     \<lparr>is_connected = True, bus_send_ok = True, sent = [], message_callbacks = [0]\<rparr>
     1000 180 100 5 ''servo''
   = (False,
      \<lparr>motor_id = 1, last_status = None, is_enabled = False, last_command_time = 0,
       max_position_deg = 90, max_velocity_rpm = 1000, max_current_a = 10, max_torque_nm = 5\<rparr>,
      \<lparr>is_connected = True, bus_send_ok = True, sent = [], message_callbacks = [0]\<rparr>)
   \<and>
   set_position pack_f32_sample rnd_sample
     \<lparr>motor_id = 1, last_status = None, is_enabled = False, last_command_time = 0,
      max_position_deg = 90, max_velocity_rpm = 1000, max_current_a = 10, max_torque_nm = 5\<rparr>
     \<lparr>is_connected = True, bus_send_ok = True, sent = [], message_callbacks = [0]\<rparr>
     1000 45 100 5 ''servo''
   = (True,
      \<lparr>motor_id = 1, last_status = None, is_enabled = False, last_command_time = 1000,
       max_position_deg = 90, max_velocity_rpm = 1000, max_current_a = 10, max_torque_nm = 5\<rparr>,
      \<lparr>is_connected = True, bus_send_ok = True,
       sent = [\<lparr>arbitration_id = 1,
                data = [0x3F, 0x49, 0x0F, 0xDB, 0x03, 0xE8, 0x01, 0xF4],
                is_extended = False\<rparr>],
       message_callbacks = [0]\<rparr>)"
proof -
  let ?m = "\<lparr>motor_id = 1, last_status = None, is_enabled = False, last_command_time = 0,
      max_position_deg = 90, max_velocity_rpm = 1000, max_current_a = 10, max_torque_nm = 5\<rparr>"
  let ?hw = "\<lparr>is_connected = True, bus_send_ok = True, sent = [], message_callbacks = [0]\<rparr>"
  let ?frame = "\<lparr>arbitration_id = 1,
                data = [0x3F, 0x49, 0x0F, 0xDB, 0x03, 0xE8, 0x01, 0xF4 :: byte],
                is_extended = False\<rparr>"
  have e: "encode_servo_position_command pack_f32_sample rnd_sample (motor_id ?m)
             (Finite 45) (Finite 100) (Finite 5) = Inr ?frame"
  proof -
    have p2: "pack_f32_sample (Finite 100) = Some 0x42C80000"
      and p3: "pack_f32_sample (Finite 5) = Some 0x40A00000"
      by (simp_all add: pack_f32_sample_def)
    have i2: "py_int (fmul_c rnd_sample (Finite 100) 10) = Inr 1000"
      and i3: "py_int (fmul_c rnd_sample (Finite 5) 100) = Inr 500"
      by (simp_all add: py_int_def fmul_c_def rnd_sample_def deg_to_rad_def)
    show ?thesis
      by (simp add: encode_servo_position_command_ok [OF pack_f32_sample_radians_45 p2 p3 i2 i3]
          be32_bytes_def)
  qed
  show ?thesis
    using e
      set_position_safety_gate [where position_deg = 180 and m = ?m and speed_limit_rpm = 100
        and current_limit_a = 5 and pk = pack_f32_sample and rnd = rnd_sample and hw = ?hw and now = 1000
        and mode = "''servo''" and frame = ?frame]
      set_position_safety_gate [where position_deg = 45 and m = ?m and speed_limit_rpm = 100
        and current_limit_a = 5 and pk = pack_f32_sample and rnd = rnd_sample and hw = ?hw and now = 1000
        and mode = "''servo''" and frame = ?frame]
    by simp
qed

subsection \<open>The current check\<close>

text \<open>
  C10. The current check takes no absolute value: every current limit that is at most
  \<open>max_current_a\<close>, however negative, passes it, and \<open>set_velocity\<close> then sends the
  encoded frame and returns \<open>True\<close> whenever the velocity check passes, the encoder yields
  a frame and the transport accepts it. The witness is the current limit -1000.
\<close>

theorem current_check_one_sided:
  "(current_limit_a \<le> max_current_a m \<longrightarrow> check_current_safe m current_limit_a) \<and>
   (current_limit_a \<le> max_current_a m \<and> \<bar>velocity_rpm\<bar> \<le> max_velocity_rpm m
      \<and> encode_servo_speed_command pk (motor_id m) (Finite velocity_rpm)
           (Finite current_limit_a) = Inr frame
      \<and> is_connected hw \<and> bus_send_ok hw \<longrightarrow>
    set_velocity pk m hw now velocity_rpm current_limit_a
      = (True, m\<lparr>last_command_time := now\<rparr>, hw\<lparr>sent := sent hw @ [frame]\<rparr>))"
  by (auto simp: set_velocity_def check_velocity_safe_def check_current_safe_def
      send_command_def send_frame_def)

theorem current_check_one_sided_witness:
  "(- 1000 :: real) \<le> 10 \<and>
   check_current_safe
     \<lparr>motor_id = 1, last_status = None, is_enabled = False, last_command_time = 0,
      max_position_deg = 360, max_velocity_rpm = 1000, max_current_a = 10, max_torque_nm = 5\<rparr>
     (- 1000) \<and>
   set_velocity pack_f32_sample
     \<lparr>motor_id = 1, last_status = None, is_enabled = False, last_command_time = 0,
      max_position_deg = 360, max_velocity_rpm = 1000, max_current_a = 10, max_torque_nm = 5\<rparr>
     \<lparr>is_connected = True, bus_send_ok = True, sent = [], message_callbacks = [0]\<rparr>
     1000 50 (- 1000)
   = (True,
      \<lparr>motor_id = 1, last_status = None, is_enabled = False, last_command_time = 1000,
       max_position_deg = 360, max_velocity_rpm = 1000, max_current_a = 10, max_torque_nm = 5\<rparr>,
      \<lparr>is_connected = True, bus_send_ok = True,
       sent = [\<lparr>arbitration_id = 1,
                data = [0x42, 0x48, 0x00, 0x00, 0xC4, 0x7A, 0x00, 0x00],
                is_extended = False\<rparr>],
       message_callbacks = [0]\<rparr>)"
proof -
  let ?m = "\<lparr>motor_id = 1, last_status = None, is_enabled = False, last_command_time = 0,
      max_position_deg = 360, max_velocity_rpm = 1000, max_current_a = 10, max_torque_nm = 5\<rparr>"
  let ?hw = "\<lparr>is_connected = True, bus_send_ok = True, sent = [], message_callbacks = [0]\<rparr>"
  let ?frame = "\<lparr>arbitration_id = 1,
                data = [0x42, 0x48, 0x00, 0x00, 0xC4, 0x7A, 0x00, 0x00 :: byte],
                is_extended = False\<rparr>"
  have p1: "pack_f32_sample (Finite 50) = Some 0x42480000"
    and p2: "pack_f32_sample (Finite (- 1000)) = Some 0xC47A0000"
    by (simp_all add: pack_f32_sample_def)
  have e: "encode_servo_speed_command pack_f32_sample (motor_id ?m) (Finite 50)
             (Finite (- 1000)) = Inr ?frame"
    by (simp add: encode_servo_speed_command_ok [OF p1 p2] be32_bytes_def)
  show ?thesis
    using e
      current_check_one_sided [where current_limit_a = "- 1000" and m = ?m
        and velocity_rpm = 50 and pk = pack_f32_sample and hw = ?hw and now = 1000
        and frame = ?frame]
    by simp
qed

subsection \<open>Heartbeat\<close>

text \<open>
  C7 (as amended). \<open>is_heartbeat_alive\<close> is true while \<open>last_command_time\<close> is zero. After
  a successful \<open>set_position\<close>, \<open>set_velocity\<close> or \<open>stop\<close> that read the clock at
  \<open>now > 0\<close>, it is true at \<open>now\<close>, and at a time \<open>t\<close> with no further such command it is
  true exactly when less than 0.5 s have elapsed since \<open>now\<close>.
\<close>

theorem heartbeat_window:
  "(last_command_time m = 0 \<longrightarrow> is_heartbeat_alive m t) \<and>
   (0 < now \<and>
      (set_position pk rnd m hw now p s c mode = (True, m', hw')
       \<or> set_velocity pk m hw now v c = (True, m', hw')
       \<or> stop pk m hw now = (True, m', hw')) \<longrightarrow>
    is_heartbeat_alive m' now \<and> is_heartbeat_alive m' t = (t - now < 0.5))"
proof -
  have 1: "is_heartbeat_alive m t" if "last_command_time m = 0"
    using that by (simp add: is_heartbeat_alive_def)
  have 2: "is_heartbeat_alive m' now \<and> is_heartbeat_alive m' t = (t - now < 0.5)"
    if "0 < now" and c: "set_position pk rnd m hw now p s c mode = (True, m', hw')
       \<or> set_velocity pk m hw now v c = (True, m', hw')
       \<or> stop pk m hw now = (True, m', hw')"
  proof -
    from c have "m' = m\<lparr>last_command_time := now\<rparr>"
      using set_position_True set_velocity_True unfolding stop_def by blast
    with \<open>0 < now\<close> show ?thesis
      by (simp add: is_heartbeat_alive_def HEARTBEAT_TIMEOUT_MS_def Let_def)
  qed
  from 1 2 show ?thesis by blast
qed

theorem heartbeat_window_witness:
  "is_heartbeat_alive
     \<lparr>motor_id = 1, last_status = None, is_enabled = False, last_command_time = 0,
      max_position_deg = 360, max_velocity_rpm = 1000, max_current_a = 10, max_torque_nm = 5\<rparr>
     1000 \<and>
   is_heartbeat_alive
     \<lparr>motor_id = 1, last_status = None, is_enabled = False, last_command_time = 1000,
      max_position_deg = 360, max_velocity_rpm = 1000, max_current_a = 10, max_torque_nm = 5\<rparr>
     1000 \<and>
   is_heartbeat_alive
     \<lparr>motor_id = 1, last_status = None, is_enabled = False, last_command_time = 1000,
      max_position_deg = 360, max_velocity_rpm = 1000, max_current_a = 10, max_torque_nm = 5\<rparr>
     1000.2 \<and>
   \<not> is_heartbeat_alive
     \<lparr>motor_id = 1, last_status = None, is_enabled = False, last_command_time = 1000,
      max_position_deg = 360, max_velocity_rpm = 1000, max_current_a = 10, max_torque_nm = 5\<rparr>
     1000.7"
proof -
  let ?m0 = "\<lparr>motor_id = 1, last_status = None, is_enabled = False, last_command_time = 0,
      max_position_deg = 360, max_velocity_rpm = 1000, max_current_a = 10, max_torque_nm = 5\<rparr>"
  let ?m1 = "\<lparr>motor_id = 1, last_status = None, is_enabled = False, last_command_time = 1000,
      max_position_deg = 360, max_velocity_rpm = 1000, max_current_a = 10, max_torque_nm = 5\<rparr>"
  let ?hw0 = "\<lparr>is_connected = True, bus_send_ok = True, sent = [], message_callbacks = [0]\<rparr>"
  let ?hw1 = "\<lparr>is_connected = True, bus_send_ok = True,
       sent = [\<lparr>arbitration_id = 1,
                data = [0x42, 0x48, 0x00, 0x00, 0x40, 0xA0, 0x00, 0x00 :: byte],
                is_extended = False\<rparr>],
       message_callbacks = [0]\<rparr>"
  note h = heartbeat_window [where m = ?m0 and m' = ?m1 and hw = ?hw0 and hw' = ?hw1
      and pk = pack_f32_sample and now = 1000 and v = 50 and c = 5]
  show ?thesis
    using set_velocity_run h [where t = 1000] h [where t = "1000.2"] h [where t = "1000.7"]
    by simp
qed

text \<open>
  The heartbeat is not alive after every successful command: a motor whose last velocity
  command was at time 1000 accepts \<open>set_zero_point\<close> at time 2000, which succeeds and
  returns at 2000.5, and \<open>is_heartbeat_alive\<close> is false at that moment.
\<close>

theorem heartbeat_after_zero_point_counterexample:
  "set_zero_point
     \<lparr>motor_id = 1, last_status = None, is_enabled = False, last_command_time = 1000,
      max_position_deg = 360, max_velocity_rpm = 1000, max_current_a = 10, max_torque_nm = 5\<rparr>
     \<lparr>is_connected = True, bus_send_ok = True,
      sent = [\<lparr>arbitration_id = 1,
               data = [0x42, 0x48, 0x00, 0x00, 0x40, 0xA0, 0x00, 0x00],
               is_extended = False\<rparr>],
      message_callbacks = [0]\<rparr>
     2000
   = (True,
      \<lparr>motor_id = 1, last_status = None, is_enabled = False, last_command_time = 1000,
       max_position_deg = 360, max_velocity_rpm = 1000, max_current_a = 10, max_torque_nm = 5\<rparr>,
      \<lparr>is_connected = True, bus_send_ok = True,
       sent = [\<lparr>arbitration_id = 1,
                data = [0x42, 0x48, 0x00, 0x00, 0x40, 0xA0, 0x00, 0x00],
                is_extended = False\<rparr>,
               \<lparr>arbitration_id = 1,
                data = [0x55, 0xAA, 0x00, 0x00, 0x00, 0x00, 0x00, 0x00],
                is_extended = False\<rparr>],
       message_callbacks = [0]\<rparr>,
      2000.5)
   \<and> \<not> is_heartbeat_alive
     \<lparr>motor_id = 1, last_status = None, is_enabled = False, last_command_time = 1000,
      max_position_deg = 360, max_velocity_rpm = 1000, max_current_a = 10, max_torque_nm = 5\<rparr>
     2000.5"
  using set_zero_point_run
  by (simp add: is_heartbeat_alive_def HEARTBEAT_TIMEOUT_MS_def)

subsection \<open>The motor registry and the address scan\<close>

text \<open>
  C8. \<open>add_motor\<close> is idempotent: when a call with an address returns a Motor, a second
  call with the same address returns the same reference and changes nothing, so no Motor
  is constructed. For every sequence of inbound frames, the list that \<open>scan_motors\<close>
  returns is sorted in ascending order and has no duplicates.
\<close>

theorem add_motor_idempotent_scan_sorted:
  "(add_motor mid mm = Inr (r, mm') \<longrightarrow> add_motor mid mm' = Inr (r, mm')) \<and>
   sorted (fst (scan_motors hw polls)) \<and> distinct (fst (scan_motors hw polls))"
  using add_motor_again [of mid mm r mm'] scan_motors_cases [of hw polls]
  by auto

theorem add_motor_idempotent_scan_sorted_witness:
  "add_motor 3
     \<lparr>can_hardware = \<lparr>is_connected = True, bus_send_ok = True, sent = [], message_callbacks = []\<rparr>,
      objects = [], motors = Map.empty\<rparr>
   = Inr (0,
     \<lparr>can_hardware = \<lparr>is_connected = True, bus_send_ok = True, sent = [], message_callbacks = [0]\<rparr>,
      objects = [\<lparr>motor_id = 3, last_status = None, is_enabled = False, last_command_time = 0,
                  max_position_deg = 360, max_velocity_rpm = 1000, max_current_a = 10,
                  max_torque_nm = 5\<rparr>],
      motors = [3 \<mapsto> 0]\<rparr>) \<and>
   add_motor 3
     \<lparr>can_hardware = \<lparr>is_connected = True, bus_send_ok = True, sent = [], message_callbacks = [0]\<rparr>,
      objects = [\<lparr>motor_id = 3, last_status = None, is_enabled = False, last_command_time = 0,
                  max_position_deg = 360, max_velocity_rpm = 1000, max_current_a = 10,
                  max_torque_nm = 5\<rparr>],
      motors = [3 \<mapsto> 0]\<rparr>
   = Inr (0,
     \<lparr>can_hardware = \<lparr>is_connected = True, bus_send_ok = True, sent = [], message_callbacks = [0]\<rparr>,
      objects = [\<lparr>motor_id = 3, last_status = None, is_enabled = False, last_command_time = 0,
                  max_position_deg = 360, max_velocity_rpm = 1000, max_current_a = 10,
                  max_torque_nm = 5\<rparr>],
      motors = [3 \<mapsto> 0]\<rparr>) \<and>
   fst (scan_motors
     \<lparr>is_connected = True, bus_send_ok = True, sent = [], message_callbacks = []\<rparr>
     [Some \<lparr>arbitration_id = 0, data = [0x03, 0xAA, 0x01, 0x03, 0x20, 0, 0, 0], is_extended = False\<rparr>,
      None,
      Some \<lparr>arbitration_id = 5, data = [0x07, 0, 0, 0, 0, 0, 0, 0], is_extended = False\<rparr>,
      Some \<lparr>arbitration_id = 0, data = [0x02, 0x01, 0, 0, 0, 0, 0, 0], is_extended = False\<rparr>])
   = [1, 2, 3, 32]"
proof -
  let ?mm0 = "\<lparr>can_hardware = \<lparr>is_connected = True, bus_send_ok = True, sent = [],
                    message_callbacks = []\<rparr>,
      objects = [], motors = Map.empty\<rparr>"
  let ?mm1 = "\<lparr>can_hardware = \<lparr>is_connected = True, bus_send_ok = True, sent = [],
                    message_callbacks = [0]\<rparr>,
      objects = [\<lparr>motor_id = 3, last_status = None, is_enabled = False, last_command_time = 0,
                  max_position_deg = 360, max_velocity_rpm = 1000, max_current_a = 10,
                  max_torque_nm = 5\<rparr>],
      motors = [3 \<mapsto> 0]\<rparr>"
  have a: "add_motor 3 ?mm0 = Inr (0, ?mm1)"
    by (simp add: add_motor_def Motor_init_def add_message_callback_def)
  show ?thesis
    using a scan_run
      add_motor_idempotent_scan_sorted [where mid = 3 and mm = ?mm0 and r = 0 and mm' = ?mm1]
    by simp
qed

subsection \<open>The force-position frame\<close>

text \<open>
  C1 (as amended). When \<open>kp\<close> and \<open>kd\<close> are finite and the three scaled values that the
  encoder computes in double arithmetic (\<open>pos_normalized * 65535\<close>, \<open>vel_normalized * 2047\<close>
  and \<open>tor_normalized * 2047\<close>) are finite, the force-position encoder returns a frame for
  the given motor whose payload is the 8 bytes, most significant first, of the 64-bit
  integer \<open>N = K * 2^52 + D * 2^43 + P * 2^27 + V * 2^16 + T * 2^5\<close>, where \<open>K\<close> is \<open>kp\<close>
  clamped to 0..4095, \<open>D\<close> is \<open>kd\<close> clamped to 0..511, and \<open>P\<close>, \<open>V\<close>, \<open>T\<close> are the scaled
  values clamped to 0..65535, 0..2047 and 0..2047, each truncated to an integer. The
  fields sit at bits 63-52, 51-43, 42-27, 26-16 and 15-5 of \<open>N\<close>, and the 5 low bits are
  zero. When one of the five values is NaN or an infinity, \<open>int()\<close> raises and the encoder
  returns no frame but ValueError or OverflowError.
\<close>

theorem encode_force_position_layout:
  "(kp = Finite a \<and> kd = Finite b
      \<and> fmul_c rnd (pos_normalized rnd pos) 65535 = Finite y
      \<and> fmul_c rnd (vel_normalized rnd vel) 2047 = Finite u
      \<and> fmul_c rnd (tor_normalized rnd tor) 2047 = Finite z \<longrightarrow>
    (let K = \<lfloor>max 0 (min a 4095)\<rfloor>;
         D = \<lfloor>max 0 (min b 511)\<rfloor>;
         P = \<lfloor>max 0 (min y 65535)\<rfloor>;
         V = \<lfloor>max 0 (min u 2047)\<rfloor>;
         T = \<lfloor>max 0 (min z 2047)\<rfloor>;
         N = K * 2 ^ 52 + D * 2 ^ 43 + P * 2 ^ 27 + V * 2 ^ 16 + T * 2 ^ 5;
         B = [word_of_int (drop_bit 56 N), word_of_int (drop_bit 48 N),
              word_of_int (drop_bit 40 N), word_of_int (drop_bit 32 N),
              word_of_int (drop_bit 24 N), word_of_int (drop_bit 16 N),
              word_of_int (drop_bit 8 N), word_of_int N]
     in encode_force_position_command rnd mid kp kd pos vel tor
          = Inr \<lparr>arbitration_id = mid, data = B, is_extended = False\<rparr>
        \<and> 0 \<le> K \<and> K \<le> 4095 \<and> 0 \<le> D \<and> D \<le> 511 \<and> 0 \<le> P \<and> P \<le> 65535
        \<and> 0 \<le> V \<and> V \<le> 2047 \<and> 0 \<le> T \<and> T \<le> 2047
        \<and> 0 \<le> N \<and> N < 2 ^ 64
        \<and> take_bit 12 (drop_bit 52 N) = K \<and> take_bit 9 (drop_bit 43 N) = D
        \<and> take_bit 16 (drop_bit 27 N) = P \<and> take_bit 11 (drop_bit 16 N) = V
        \<and> take_bit 11 (drop_bit 5 N) = T \<and> take_bit 5 N = 0
        \<and> foldl (\<lambda>a b. a * 256 + uint b) 0 B = N))
   \<and>
   (\<not> is_finite kp \<or> \<not> is_finite kd
      \<or> \<not> is_finite (fmul_c rnd (pos_normalized rnd pos) 65535)
      \<or> \<not> is_finite (fmul_c rnd (vel_normalized rnd vel) 2047)
      \<or> \<not> is_finite (fmul_c rnd (tor_normalized rnd tor) 2047) \<longrightarrow>
    encode_force_position_command rnd mid kp kd pos vel tor = Inl ValueError
      \<or> encode_force_position_command rnd mid kp kd pos vel tor = Inl OverflowError)"
proof (intro conjI impI)
  assume f: "kp = Finite a \<and> kd = Finite b
      \<and> fmul_c rnd (pos_normalized rnd pos) 65535 = Finite y
      \<and> fmul_c rnd (vel_normalized rnd vel) 2047 = Finite u
      \<and> fmul_c rnd (tor_normalized rnd tor) 2047 = Finite z"
  define K D P V T where "K = \<lfloor>max 0 (min a 4095)\<rfloor>" and "D = \<lfloor>max 0 (min b 511)\<rfloor>"
    and "P = \<lfloor>max 0 (min y 65535)\<rfloor>" and "V = \<lfloor>max 0 (min u 2047)\<rfloor>"
    and "T = \<lfloor>max 0 (min z 2047)\<rfloor>"
  define N where "N = K * 2 ^ 52 + D * 2 ^ 43 + P * 2 ^ 27 + V * 2 ^ 16 + T * 2 ^ 5"
  have r: "0 \<le> K" "K < 4096" "0 \<le> D" "D < 512" "0 \<le> P" "P < 65536"
    "0 \<le> V" "V < 2048" "0 \<le> T" "T < 2048"
    unfolding K_def D_def P_def V_def T_def by (simp_all add: floor_less_iff)
  have i: "kp_int kp = Inr K" "kd_int kd = Inr D" "pos_int rnd pos = Inr P"
    "vel_int rnd vel = Inr V" "tor_int rnd tor = Inr T"
    using f py_int_Finite_clamp [of 4095 a] py_int_Finite_clamp [of 511 b]
      py_int_Finite_clamp [of 65535 y] py_int_Finite_clamp [of 2047 u]
      py_int_Finite_clamp [of 2047 z]
    by (simp_all add: kp_int_def kd_int_def pos_int_def vel_int_def tor_int_def KP_MAX_def
        KD_MAX_def K_def D_def P_def V_def T_def)
  have cd: "command_data K D P V T = N"
    unfolding N_def by (rule command_data_sum [OF r])
  have n: "0 \<le> N" "N < 2 ^ 64"
    using command_data_range [OF r] unfolding cd by simp_all
  note fl = force_position_fields [OF r, folded N_def]
  note b = be_bytes_value [OF n]
  note e = encode_force_position_command_bytes [OF i, of mid, unfolded cd]
  have "encode_force_position_command rnd mid kp kd pos vel tor
        = Inr \<lparr>arbitration_id = mid,
               data = [word_of_int (drop_bit 56 N), word_of_int (drop_bit 48 N),
                  word_of_int (drop_bit 40 N), word_of_int (drop_bit 32 N),
                  word_of_int (drop_bit 24 N), word_of_int (drop_bit 16 N),
                  word_of_int (drop_bit 8 N), word_of_int N], is_extended = False\<rparr>
      \<and> 0 \<le> K \<and> K \<le> 4095 \<and> 0 \<le> D \<and> D \<le> 511 \<and> 0 \<le> P \<and> P \<le> 65535
      \<and> 0 \<le> V \<and> V \<le> 2047 \<and> 0 \<le> T \<and> T \<le> 2047
      \<and> 0 \<le> N \<and> N < 2 ^ 64
      \<and> take_bit 12 (drop_bit 52 N) = K \<and> take_bit 9 (drop_bit 43 N) = D
      \<and> take_bit 16 (drop_bit 27 N) = P \<and> take_bit 11 (drop_bit 16 N) = V
      \<and> take_bit 11 (drop_bit 5 N) = T \<and> take_bit 5 N = 0
      \<and> foldl (\<lambda>a b. a * 256 + uint b) 0
           [word_of_int (drop_bit 56 N), word_of_int (drop_bit 48 N),
            word_of_int (drop_bit 40 N), word_of_int (drop_bit 32 N),
            word_of_int (drop_bit 24 N), word_of_int (drop_bit 16 N),
            word_of_int (drop_bit 8 N), word_of_int N :: byte] = N"
    using r n fl b e by (intro conjI) simp_all
  then show "let K = \<lfloor>max 0 (min a 4095)\<rfloor>;
         D = \<lfloor>max 0 (min b 511)\<rfloor>;
         P = \<lfloor>max 0 (min y 65535)\<rfloor>;
         V = \<lfloor>max 0 (min u 2047)\<rfloor>;
         T = \<lfloor>max 0 (min z 2047)\<rfloor>;
         N = K * 2 ^ 52 + D * 2 ^ 43 + P * 2 ^ 27 + V * 2 ^ 16 + T * 2 ^ 5;
         B = [word_of_int (drop_bit 56 N), word_of_int (drop_bit 48 N),
              word_of_int (drop_bit 40 N), word_of_int (drop_bit 32 N),
              word_of_int (drop_bit 24 N), word_of_int (drop_bit 16 N),
              word_of_int (drop_bit 8 N), word_of_int N]
     in encode_force_position_command rnd mid kp kd pos vel tor
          = Inr \<lparr>arbitration_id = mid, data = B, is_extended = False\<rparr>
        \<and> 0 \<le> K \<and> K \<le> 4095 \<and> 0 \<le> D \<and> D \<le> 511 \<and> 0 \<le> P \<and> P \<le> 65535
        \<and> 0 \<le> V \<and> V \<le> 2047 \<and> 0 \<le> T \<and> T \<le> 2047
        \<and> 0 \<le> N \<and> N < 2 ^ 64
        \<and> take_bit 12 (drop_bit 52 N) = K \<and> take_bit 9 (drop_bit 43 N) = D
        \<and> take_bit 16 (drop_bit 27 N) = P \<and> take_bit 11 (drop_bit 16 N) = V
        \<and> take_bit 11 (drop_bit 5 N) = T \<and> take_bit 5 N = 0
        \<and> foldl (\<lambda>a b. a * 256 + uint b) 0 B = N"
    unfolding Let_def K_def [symmetric] D_def [symmetric] P_def [symmetric] V_def [symmetric]
      T_def [symmetric] N_def [symmetric] .
next
  assume "\<not> is_finite kp \<or> \<not> is_finite kd
      \<or> \<not> is_finite (fmul_c rnd (pos_normalized rnd pos) 65535)
      \<or> \<not> is_finite (fmul_c rnd (vel_normalized rnd vel) 2047)
      \<or> \<not> is_finite (fmul_c rnd (tor_normalized rnd tor) 2047)"
  then show "encode_force_position_command rnd mid kp kd pos vel tor = Inl ValueError
      \<or> encode_force_position_command rnd mid kp kd pos vel tor = Inl OverflowError"
    by (rule encode_force_position_command_raises)
qed

lemma force_scaled_runs:
  "fmul_c rnd_sample (pos_normalized rnd_sample (Finite 0)) 65535 = Finite 32767.5"
  "fmul_c rnd_sample (vel_normalized rnd_sample (Finite 0)) 2047 = Finite 1023.5"
  "fmul_c rnd_sample (tor_normalized rnd_sample (Finite 0)) 2047 = Finite 1023.5"
  "fmul_c rnd_sample (pos_normalized rnd_sample (Finite math_pi)) 65535 = Finite 65535"
  "fmul_c rnd_sample (vel_normalized rnd_sample (Finite (- 30))) 2047 = Finite (- 2047)"
  "fmul_c rnd_sample (tor_normalized rnd_sample (Finite 10)) 2047 = Finite 2047"
  by (simp_all add: fmul_c_def fdiv_c_def fadd_c_def pos_normalized_def vel_normalized_def
      tor_normalized_def rnd_sample_def math_pi_def deg_to_rad_def)

theorem encode_force_position_layout_witness:
  "encode_force_position_command rnd_sample 1 (Finite 50) (Finite 5) (Finite 0) (Finite 0)
     (Finite 0)
     = Inr \<lparr>arbitration_id = 1, data = [0x03, 0x20, 0x2B, 0xFF, 0xFB, 0xFF, 0x7F, 0xE0],
            is_extended = False\<rparr> \<and>
   encode_force_position_command rnd_sample 1 (Finite 5000) (Finite (- 3)) (Finite math_pi)
     (Finite (- 30)) (Finite 10)
     = Inr \<lparr>arbitration_id = 1, data = [0xFF, 0xF0, 0x07, 0xFF, 0xF8, 0x00, 0xFF, 0xE0],
            is_extended = False\<rparr> \<and>
   encode_force_position_command rnd_sample 1 (Finite 50) (Finite 5) (Finite 0) NaN (Finite 0)
     = Inl ValueError"
proof -
  have nf: "\<not> is_finite (fmul_c rnd_sample (vel_normalized rnd_sample NaN) 2047)"
    by (simp add: fmul_c_def fdiv_c_def fadd_c_def vel_normalized_def is_finite_def)
  have vn: "fmul_c rnd_sample (vel_normalized rnd_sample NaN) 2047 = NaN"
    by (simp add: fmul_c_def fdiv_c_def fadd_c_def vel_normalized_def)
  have ne: "encode_force_position_command rnd_sample 1 (Finite 50) (Finite 5) (Finite 0) NaN
      (Finite 0) \<noteq> Inl OverflowError"
    by (simp add: encode_force_position_command_def kp_int_def kd_int_def pos_int_def
        vel_int_def py_int_def py_bind_def force_scaled_runs vn)
  show ?thesis
    using force_scaled_runs nf ne
      encode_force_position_layout [where rnd = rnd_sample and mid = 1 and kp = "Finite 50"
        and kd = "Finite 5" and pos = "Finite 0" and vel = "Finite 0" and tor = "Finite 0"
        and a = 50 and b = 5 and y = "32767.5" and u = "1023.5" and z = "1023.5"]
      encode_force_position_layout [where rnd = rnd_sample and mid = 1 and kp = "Finite 5000"
        and kd = "Finite (- 3)" and pos = "Finite math_pi" and vel = "Finite (- 30)"
        and tor = "Finite 10" and a = 5000 and b = "- 3" and y = 65535 and u = "- 2047"
        and z = 2047]
      encode_force_position_layout [where rnd = rnd_sample and mid = 1 and kp = "Finite 50"
        and kd = "Finite 5" and pos = "Finite 0" and vel = NaN and tor = "Finite 0"]
    by (simp add: Let_def)
qed

text \<open>
  The encoder does not clamp every input: on an infinite \<open>kp\<close> it raises OverflowError, and
  on a NaN position it raises ValueError.
\<close>

theorem encode_force_position_non_finite_counterexample:
  "encode_force_position_command rnd_sample 1 PosInf (Finite 5) (Finite 0) (Finite 0) (Finite 0)
     = Inl OverflowError \<and>
   encode_force_position_command rnd_sample 1 (Finite 50) (Finite 5) NaN (Finite 0) (Finite 0)
     = Inl ValueError"
  by (simp add: encode_force_position_command_def kp_int_def kd_int_def pos_int_def
      py_int_def py_bind_def fmul_c_def fdiv_c_def fadd_c_def pos_normalized_def KP_MAX_def
      KD_MAX_def)

subsection \<open>The servo-position frame\<close>

text \<open>
  C4 (as amended). When \<open>struct.pack\<close> accepts the three floats and the double products
  \<open>speed_limit * 10\<close> and \<open>current_limit * 100\<close> are finite, the servo-position encoder
  returns an 8-byte payload: bytes 0-3 are the big-endian bytes of the single-precision
  pattern of the position in radians, bytes 4-5 are the big-endian unsigned 16-bit value
  of the product \<open>speed_limit * 10\<close> clamped to 0..65535 and truncated (not rounded to the
  nearest integer), bytes 6-7 the same for \<open>current_limit * 100\<close>. When \<open>struct.pack\<close>
  rejects one of the three floats the encoder raises OverflowError; when it accepts them
  and one of the two products is NaN or an infinity, \<open>int()\<close> raises ValueError or
  OverflowError.
\<close>

theorem encode_servo_position_layout:
  "(pk (radians rnd position_deg) = Some w1 \<and> pk speed_limit = Some w2
      \<and> pk current_limit = Some w3
      \<and> fmul_c rnd speed_limit 10 = Finite y \<and> fmul_c rnd current_limit 100 = Finite z \<longrightarrow>
    (let S = (word_of_int \<lfloor>max 0 (min y 65535)\<rfloor> :: 16 word);
         C = (word_of_int \<lfloor>max 0 (min z 65535)\<rfloor> :: 16 word)
     in encode_servo_position_command pk rnd mid position_deg speed_limit current_limit
          = Inr \<lparr>arbitration_id = mid,
                 data = be32_bytes w1 @ [ucast (drop_bit 8 S), ucast S]
                          @ [ucast (drop_bit 8 C), ucast C],
                 is_extended = False\<rparr>
        \<and> uint S = \<lfloor>max 0 (min y 65535)\<rfloor>
        \<and> uint C = \<lfloor>max 0 (min z 65535)\<rfloor>))
   \<and>
   (pk (radians rnd position_deg) = None \<or> pk speed_limit = None
      \<or> pk current_limit = None \<longrightarrow>
    encode_servo_position_command pk rnd mid position_deg speed_limit current_limit
      = Inl OverflowError)
   \<and>
   (pk (radians rnd position_deg) = Some w1 \<and> pk speed_limit = Some w2
      \<and> pk current_limit = Some w3
      \<and> (\<not> is_finite (fmul_c rnd speed_limit 10)
           \<or> \<not> is_finite (fmul_c rnd current_limit 100)) \<longrightarrow>
    encode_servo_position_command pk rnd mid position_deg speed_limit current_limit
        = Inl ValueError
      \<or> encode_servo_position_command pk rnd mid position_deg speed_limit current_limit
        = Inl OverflowError)"
proof -
  have 1: "encode_servo_position_command pk rnd mid position_deg speed_limit current_limit
          = Inr \<lparr>arbitration_id = mid,
                 data = be32_bytes w1
                   @ [ucast (drop_bit 8 (word_of_int \<lfloor>max 0 (min y 65535)\<rfloor> :: 16 word)),
                      ucast (word_of_int \<lfloor>max 0 (min y 65535)\<rfloor> :: 16 word)]
                   @ [ucast (drop_bit 8 (word_of_int \<lfloor>max 0 (min z 65535)\<rfloor> :: 16 word)),
                      ucast (word_of_int \<lfloor>max 0 (min z 65535)\<rfloor> :: 16 word)],
                 is_extended = False\<rparr>
        \<and> uint (word_of_int \<lfloor>max 0 (min y 65535)\<rfloor> :: 16 word) = \<lfloor>max 0 (min y 65535)\<rfloor>
        \<and> uint (word_of_int \<lfloor>max 0 (min z 65535)\<rfloor> :: 16 word) = \<lfloor>max 0 (min z 65535)\<rfloor>"
    if p: "pk (radians rnd position_deg) = Some w1" "pk speed_limit = Some w2"
      "pk current_limit = Some w3"
      and f: "fmul_c rnd speed_limit 10 = Finite y" "fmul_c rnd current_limit 100 = Finite z"
  proof -
    let ?s = "if 0 \<le> y then \<lfloor>y\<rfloor> else \<lceil>y\<rceil>"
    let ?c = "if 0 \<le> z then \<lfloor>z\<rfloor> else \<lceil>z\<rceil>"
    have i: "py_int (fmul_c rnd speed_limit 10) = Inr ?s"
      "py_int (fmul_c rnd current_limit 100) = Inr ?c"
      unfolding f by (rule py_int_Finite)+
    have s: "max 0 (min ?s 65535) = \<lfloor>max 0 (min y 65535)\<rfloor>"
      using trunc_clamp [of 65535 y] by simp
    have c: "max 0 (min ?c 65535) = \<lfloor>max 0 (min z 65535)\<rfloor>"
      using trunc_clamp [of 65535 z] by simp
    have e: "encode_servo_position_command pk rnd mid position_deg speed_limit current_limit
          = Inr \<lparr>arbitration_id = mid,
                 data = be32_bytes w1
                   @ [ucast (drop_bit 8 (word_of_int \<lfloor>max 0 (min y 65535)\<rfloor> :: 16 word)),
                      ucast (word_of_int \<lfloor>max 0 (min y 65535)\<rfloor> :: 16 word)]
                   @ [ucast (drop_bit 8 (word_of_int \<lfloor>max 0 (min z 65535)\<rfloor> :: 16 word)),
                      ucast (word_of_int \<lfloor>max 0 (min z 65535)\<rfloor> :: 16 word)],
                 is_extended = False\<rparr>"
      unfolding encode_servo_position_command_ok [OF p i] s c
        u16_hi_byte [symmetric] u16_lo_byte [symmetric] ..
    have u1: "uint (word_of_int \<lfloor>max 0 (min y 65535)\<rfloor> :: 16 word) = \<lfloor>max 0 (min y 65535)\<rfloor>"
      using uint_u16_clamped [of ?s] unfolding s .
    have u2: "uint (word_of_int \<lfloor>max 0 (min z 65535)\<rfloor> :: 16 word) = \<lfloor>max 0 (min z 65535)\<rfloor>"
      using uint_u16_clamped [of ?c] unfolding c .
    from e u1 u2 show ?thesis by blast
  qed
  have 2: "encode_servo_position_command pk rnd mid position_deg speed_limit current_limit
           = Inl OverflowError"
    if "pk (radians rnd position_deg) = None \<or> pk speed_limit = None
        \<or> pk current_limit = None"
    using that by (rule encode_servo_position_command_overflow)
  have 3: "encode_servo_position_command pk rnd mid position_deg speed_limit current_limit
        = Inl ValueError
      \<or> encode_servo_position_command pk rnd mid position_deg speed_limit current_limit
        = Inl OverflowError"
    if "pk (radians rnd position_deg) = Some w1" "pk speed_limit = Some w2"
      "pk current_limit = Some w3"
      "\<not> is_finite (fmul_c rnd speed_limit 10) \<or> \<not> is_finite (fmul_c rnd current_limit 100)"
    using that by (rule encode_servo_position_command_raises)
  show ?thesis unfolding Let_def using 1 2 3 by blast
qed

theorem encode_servo_position_layout_witness:
  "encode_servo_position_command pack_f32_sample rnd_sample 1 (Finite 45) (Finite 100) (Finite 5)
     = Inr \<lparr>arbitration_id = 1, data = [0x3F, 0x49, 0x0F, 0xDB, 0x03, 0xE8, 0x01, 0xF4],
            is_extended = False\<rparr> \<and>
   encode_servo_position_command pack_f32_sample rnd_sample 1 (Finite 45) (Finite 100)
     (Finite (2 ^ 130)) = Inl OverflowError \<and>
   encode_servo_position_command pack_f32_sample rnd_sample 1 (Finite 45) NaN (Finite 5)
     = Inl ValueError"
proof -
  have p2: "pack_f32_sample (Finite 100) = Some 0x42C80000"
    and p3: "pack_f32_sample (Finite 5) = Some 0x40A00000"
    and p4: "pack_f32_sample (Finite (2 ^ 130)) = None"
    and p5: "pack_f32_sample NaN = Some 0x7FC00000"
    by (simp_all add: pack_f32_sample_def)
  have f: "fmul_c rnd_sample (Finite 100) 10 = Finite 1000"
    "fmul_c rnd_sample (Finite 5) 100 = Finite 500"
    "fmul_c rnd_sample NaN 10 = NaN"
    by (simp_all add: fmul_c_def rnd_sample_def deg_to_rad_def)
  have nf: "\<not> is_finite NaN" by (simp add: is_finite_def)
  have ne: "encode_servo_position_command pack_f32_sample rnd_sample 1 (Finite 45) NaN (Finite 5)
      \<noteq> Inl OverflowError"
    using pack_f32_sample_radians_45 p3 p5
    by (simp add: encode_servo_position_command_def float_to_bytes_def py_bind_def f py_int_def)
  show ?thesis
    using pack_f32_sample_radians_45 p2 p3 p4 p5 f nf ne
      encode_servo_position_layout [where pk = pack_f32_sample and rnd = rnd_sample
        and position_deg = "Finite 45" and speed_limit = "Finite 100"
        and current_limit = "Finite 5" and mid = 1 and y = 1000 and z = 500
        and ?w1.0 = "0x3F490FDB" and ?w2.0 = "0x42C80000" and ?w3.0 = "0x40A00000"]
      encode_servo_position_layout [where pk = pack_f32_sample and rnd = rnd_sample
        and position_deg = "Finite 45" and speed_limit = "Finite 100"
        and current_limit = "Finite (2 ^ 130)" and mid = 1]
      encode_servo_position_layout [where pk = pack_f32_sample and rnd = rnd_sample
        and position_deg = "Finite 45" and speed_limit = NaN
        and current_limit = "Finite 5" and mid = 1
        and ?w1.0 = "0x3F490FDB" and ?w2.0 = "0x7FC00000" and ?w3.0 = "0x40A00000"]
    by (simp add: Let_def be32_bytes_def)
qed

text \<open>
  With rounding to the nearest integer the claim fails: for \<open>speed_limit = 3/32\<close> the
  product is 0.9375, which rounds to 1, and the encoder writes 0 into bytes 4-5.
\<close>

theorem encode_servo_position_round_counterexample:
  "encode_servo_position_command pack_f32_sample rnd_sample 1 (Finite 0) (Finite (3 / 32))
     (Finite 0)
   \<noteq> Inr \<lparr>arbitration_id = 1,
           data = be32_bytes 0
             @ [ucast (drop_bit 8 (word_of_int (max 0 (min (round (3 / 32 * 10 :: real)) 65535)) :: 16 word)),
                ucast (word_of_int (max 0 (min (round (3 / 32 * 10 :: real)) 65535)) :: 16 word)]
             @ [ucast (drop_bit 8 (word_of_int (max 0 (min (round (0 * 100 :: real)) 65535)) :: 16 word)),
                ucast (word_of_int (max 0 (min (round (0 * 100 :: real)) 65535)) :: 16 word)],
           is_extended = False\<rparr>"
proof -
  have p1: "pack_f32_sample (radians rnd_sample (Finite 0)) = Some 0"
    and p2: "pack_f32_sample (Finite (3 / 32)) = Some 0x3DC00000"
    and p3: "pack_f32_sample (Finite 0) = Some 0"
    by (simp_all add: pack_f32_sample_def radians_def fmul_c_def rnd_sample_def deg_to_rad_def)
  have i2: "py_int (fmul_c rnd_sample (Finite (3 / 32)) 10) = Inr 0"
    and i3: "py_int (fmul_c rnd_sample (Finite 0) 100) = Inr 0"
    by (simp_all add: py_int_def fmul_c_def rnd_sample_def deg_to_rad_def)
  have r: "round (3 / 32 * 10 :: real) = 1" by (simp add: round_def)
  show ?thesis
    unfolding encode_servo_position_command_ok [OF p1 p2 p3 i2 i3] r
    by (simp add: be32_bytes_def)
qed

end
